theory Spec2Isabelle
  imports Main
begin

section \<open>The WowUp hub addon provider (wowup-addon-provider.ts)\<close>

text \<open>
  A shallow embedding of \<^verbatim>\<open>WowUpAddonProvider\<close>. Every method that awaits, throws,
  logs, draws an identifier or reads the clock takes the \<open>world\<close> and returns it updated;
  a thrown exception (a rejected promise) is the \<open>Inl\<close> of a sum. The methods are awaited
  one after the other, so a call is modelled as running to completion.
\<close>

subsection \<open>Enumerations\<close>

text \<open>
  The three enums are imported by the provider. The constructors are the members the provider
  names; \<open>WowClientType_Other\<close> stands for every client kind the \<^verbatim>\<open>switch\<close> of
  \<^verbatim>\<open>getWowGameType\<close> does not list (its \<^verbatim>\<open>default\<close> branch).
\<close>

datatype WowClientType =
    WowClientType_Retail
  | WowClientType_Classic
  | WowClientType_RetailPtr
  | WowClientType_ClassicPtr
  | WowClientType_Beta
  | WowClientType_ClassicBeta
  | WowClientType_ClassicEra
  | WowClientType_Other nat

datatype WowGameType =
    WowGameType_Retail
  | WowGameType_Classic
  | WowGameType_BurningCrusade

datatype AddonChannelType =
    AddonChannelType_Stable
  | AddonChannelType_Beta

subsection \<open>Errors and console output\<close>

text \<open>
  \<open>TypeError\<close> is what JavaScript raises on a property read of \<^verbatim>\<open>undefined\<close>;
  \<open>Timeout\<close>, \<open>CircuitOpen\<close> and \<open>RemoteFailure\<close> are the ways a call through the circuit
  breaker or the folder scanner can be rejected.
\<close>

datatype error =
    TypeError
  | Timeout
  | CircuitOpen
  | RemoteFailure string
  | SourceRemovedAddonError string "error option"

subsection \<open>Numbers and strings\<close>

definition digit_char :: "nat \<Rightarrow> char" where
  "digit_char d = ''0123456789'' ! d"

function natToString :: "nat \<Rightarrow> string" where
  "natToString n =
     (if n < 10 then [digit_char n] else natToString (n div 10) @ [digit_char (n mod 10)])"
  by pat_completeness auto
termination
  by (relation "measure (\<lambda>n. n)") auto

text \<open>
  \<^verbatim>\<open>id.toString()\<close> on an integral identifier: its decimal digits, with a minus sign
  below zero. (Identifiers are integers far below the range where JavaScript switches to
  exponent notation.)
\<close>

definition toString :: "int \<Rightarrow> string" where
  "toString i = (if i < 0 then CHR ''-'' # natToString (nat (- i)) else natToString (nat i))"

definition isDigit :: "char \<Rightarrow> bool" where
  "isDigit c = ((48::nat) \<le> of_char c \<and> of_char c \<le> (57::nat))"

definition isWhiteSpace :: "char \<Rightarrow> bool" where
  "isWhiteSpace c = (of_char c \<in> {9, 10, 11, 12, 13, 32::nat})"

definition digitsValue :: "string \<Rightarrow> nat" where
  "digitsValue ds = foldl (\<lambda>acc c. 10 * acc + (of_char c - 48)) 0 ds"

text \<open>
  \<^verbatim>\<open>parseInt(s, 10)\<close>: leading white space is skipped, one sign is read, then the longest
  run of decimal digits; \<open>None\<close> is \<^verbatim>\<open>NaN\<close> (no digit found).
\<close>

definition parseInt :: "string \<Rightarrow> int option" where
  "parseInt s =
     (let t = dropWhile isWhiteSpace s;
          neg = (case t of [] \<Rightarrow> False | c # _ \<Rightarrow> c = CHR ''-'');
          u = (case t of [] \<Rightarrow> [] | c # cs \<Rightarrow> if c = CHR ''-'' \<or> c = CHR ''+'' then cs else t);
          ds = takeWhile isDigit u
      in if ds = [] then None
         else Some (if neg then - int (digitsValue ds) else int (digitsValue ds)))"

text \<open>\<^verbatim>\<open>Array.prototype.join\<close> on an array of strings.\<close>

fun join :: "string \<Rightarrow> string list \<Rightarrow> string" where
  "join sep [] = []"
| "join sep [x] = x"
| "join sep (x # y # ys) = x @ sep @ join sep (y # ys)"

subsection \<open>Remote representations\<close>

text \<open>A funding link; the provider only copies the list it is given.\<close>

record FundingLink =
  fl_platform :: string
  fl_url :: string

record WowUpAddonGameVersion =
  gv_interface :: string
  gv_title :: string
  gv_game_type :: WowGameType
  gv_version :: string
  gv_authors :: string

record WowUpAddonFolder =
  rf_folder_name :: string
  rf_fingerprint :: string

text \<open>\<open>rel_body\<close> is optional: \<^verbatim>\<open>getChangelog\<close> reads it with \<^verbatim>\<open>?? ""\<close>.\<close>

record WowUpAddonReleaseRepresentation =
  rel_id :: int
  rel_tag_name :: string
  rel_prerelease :: bool
  rel_published_at :: string
  rel_download_url :: string
  rel_body :: "string option"
  rel_game_versions :: "WowUpAddonGameVersion list"
  rel_addonFolders :: "WowUpAddonFolder list"

record WowUpAddonRepresentation =
  rep_id :: int
  rep_repository_name :: string
  rep_owner_name :: string
  rep_repository :: string
  rep_image_url :: string
  rep_owner_image_url :: string
  rep_description :: string
  rep_total_download_count :: int
  rep_funding_links :: "FundingLink list"
  rep_releases :: "WowUpAddonReleaseRepresentation list"

text \<open>An element of \<^verbatim>\<open>GetAddonsByFingerprintResponse.exactMatches\<close>.\<close>

record FingerprintMatch =
  fm_id :: int
  fm_repository_name :: string
  fm_owner_name :: string
  fm_repository :: string
  fm_source :: string
  fm_image_url :: string
  fm_funding_links :: "FundingLink list"
  fm_matched_release :: WowUpAddonReleaseRepresentation

subsection \<open>Local models\<close>

record AppWowUpScanResult =
  sr_path :: string
  sr_fingerprint :: string
  sr_folderName :: string
  sr_exactMatch :: "FingerprintMatch option"

record AddonSearchResultFile =
  file_channelType :: AddonChannelType
  file_downloadUrl :: string
  file_folders :: "string list"
  file_gameVersion :: "string option"
  file_releaseDate :: string
  file_version :: string
  file_dependencies :: "string list"
  file_changelog :: "string option"
  file_externalId :: string
  file_title :: "string option"
  file_authors :: "string option"

record AddonSearchResult =
  res_author :: string
  res_externalId :: string
  res_externalUrl :: string
  res_name :: string
  res_providerName :: string
  res_thumbnailUrl :: string
  res_downloadCount :: int
  res_files :: "AddonSearchResultFile list"
  res_releasedAt :: nat
  res_screenshotUrl :: string
  res_screenshotUrls :: "string list"
  res_summary :: string
  res_fundingLinks :: "FundingLink list"

record Addon =
  addon_id :: nat
  addon_author :: string
  addon_name :: string
  addon_channelType :: AddonChannelType
  addon_autoUpdateEnabled :: bool
  addon_clientType :: WowClientType
  addon_downloadUrl :: string
  addon_externalUrl :: string
  addon_externalId :: string
  addon_gameVersion :: "string option"
  addon_installedAt :: nat
  addon_installedFolders :: string
  addon_installedFolderList :: "string list"
  addon_installedVersion :: string
  addon_installedExternalReleaseId :: string
  addon_isIgnored :: bool
  addon_latestVersion :: string
  addon_providerName :: string
  addon_providerSource :: string
  addon_thumbnailUrl :: string
  addon_fundingLinks :: "FundingLink list"
  addon_isLoadOnDemand :: bool
  addon_releasedAt :: string
  addon_externalChannel :: string
  addon_latestChangelog :: "string option"
  addon_externalLatestReleaseId :: string
  addon_installationId :: string

record AddonFolder =
  af_path :: string
  af_matchingAddon :: "Addon option"

record WowInstallation =
  inst_id :: string
  inst_clientType :: WowClientType

record GetAllResult =
  gar_errors :: "error list"
  gar_searchResults :: "AddonSearchResult list"

subsection \<open>Pure helpers of the provider\<close>

fun getWowGameType :: "WowClientType \<Rightarrow> WowGameType" where
  "getWowGameType WowClientType_ClassicEra = WowGameType_Classic"
| "getWowGameType WowClientType_Classic = WowGameType_BurningCrusade"
| "getWowGameType WowClientType_ClassicPtr = WowGameType_BurningCrusade"
| "getWowGameType WowClientType_ClassicBeta = WowGameType_BurningCrusade"
| "getWowGameType WowClientType_Retail = WowGameType_Retail"
| "getWowGameType WowClientType_RetailPtr = WowGameType_Retail"
| "getWowGameType WowClientType_Beta = WowGameType_Retail"
| "getWowGameType _ = WowGameType_Retail"

definition hasMatchingFingerprint ::
  "AppWowUpScanResult \<Rightarrow> WowUpAddonReleaseRepresentation \<Rightarrow> bool" where
  "hasMatchingFingerprint scanResult release =
     list_ex (\<lambda>addonFolder. rf_fingerprint addonFolder = sr_fingerprint scanResult)
       (rel_addonFolders release)"

definition getMatchingVersion ::
  "WowUpAddonReleaseRepresentation \<Rightarrow> WowGameType \<Rightarrow> WowUpAddonGameVersion option" where
  "getMatchingVersion release gameType =
     find (\<lambda>gv. gv_game_type gv = gameType) (rel_game_versions release)"

definition hasGameType :: "WowUpAddonReleaseRepresentation \<Rightarrow> WowGameType \<Rightarrow> bool" where
  "hasGameType release clientType = (getMatchingVersion release clientType \<noteq> None)"

definition getAddonReleaseChannel :: "WowUpAddonReleaseRepresentation \<Rightarrow> AddonChannelType" where
  "getAddonReleaseChannel file =
     (if rel_prerelease file then AddonChannelType_Beta else AddonChannelType_Stable)"

definition filterReleases ::
  "WowUpAddonRepresentation \<Rightarrow> WowGameType \<Rightarrow> WowUpAddonReleaseRepresentation list" where
  "filterReleases representation gameType =
     filter (\<lambda>release. list_ex (\<lambda>gv. gv_game_type gv = gameType) (rel_game_versions release))
       (rep_releases representation)"

subsection \<open>The world outside the provider\<close>

text \<open>
  What the provider writes to the console. \<^verbatim>\<open>console.log("[WowUpFingerprints]", ...)\<close>
  keeps the fingerprint list it prints rather than its JSON text.
\<close>

datatype console_entry =
    ConsoleTime string
  | ConsoleTimeEnd string
  | ConsoleLog string "string list"
  | ConsoleDebug string
  | ConsoleWarn string
  | ConsoleErrorScanResult AppWowUpScanResult
  | ConsoleError error
  | ConsoleErrorMsg string error

datatype body =
    AddonIdsBody "int option list"
  | FingerprintsBody "string list"

datatype request =
    GetJson string
  | PostJson string body

text \<open>
  The JSON a remote call resolves to. \<^verbatim>\<open>getJson<T>\<close> and \<^verbatim>\<open>postJson<T>\<close> only cast, so a
  caller can meet any of these; \<open>EmptyResponse\<close> is \<^verbatim>\<open>null\<close>, \<^verbatim>\<open>undefined\<close> or an object
  with none of the fields the provider reads.
\<close>

datatype response =
    GetAddonsByFingerprintResponse "FingerprintMatch list"
  | GetAddonBatchResponse "WowUpAddonRepresentation list"
  | WowUpGetAddonReleaseResponse "WowUpAddonReleaseRepresentation option"
  | EmptyResponse

text \<open>
  The collaborators and constants the provider imports, taken as parameters:
  \<^item> \<open>env_API_URL\<close> is \<^verbatim>\<open>AppConfig.wowUpHubUrl\<close>, \<open>env_ADDON_PROVIDER_HUB\<close> the provider name;
  \<^item> \<open>env_gameTypeText\<close> is the text of a game type inside a URL template;
  \<^item> \<open>env_getGameVersion\<close> and \<open>env_getEnumName\<close> are the two imported utilities, taken to
    return normally;
  \<^item> \<open>env_invoke\<close> is the folder scanner behind \<^verbatim>\<open>IPC_WOWUP_GET_SCAN_RESULTS\<close>;
  \<^item> \<open>env_client\<close> is the circuit-breaker client: what a request resolves to, given the
    requests handed to it before and the time (it may reject with \<open>CircuitOpen\<close> or
    \<open>Timeout\<close>).
\<close>

record env =
  env_API_URL :: string
  env_ADDON_PROVIDER_HUB :: string
  env_gameTypeText :: "WowGameType \<Rightarrow> string"
  env_getGameVersion :: "string option \<Rightarrow> string option"
  env_getEnumName :: "AddonChannelType \<Rightarrow> string"
  env_invoke :: "string list \<Rightarrow> error + AppWowUpScanResult list"
  env_client :: "request list \<Rightarrow> nat \<Rightarrow> request \<Rightarrow> error + response"

text \<open>
  The mutable state: the requests handed to the circuit-breaker client so far, the entries of
  the response cache (value and expiry time, by key), the clock in seconds, the number of
  identifiers \<^verbatim>\<open>uuidv4\<close> has handed out, and the console.
\<close>

record world =
  w_requests :: "request list"
  w_cache :: "string \<Rightarrow> (response \<times> nat) option"
  w_clock :: nat
  w_uuids :: nat
  w_console :: "console_entry list"

definition console :: "console_entry \<Rightarrow> world \<Rightarrow> world" where
  "console entry w = w\<lparr>w_console := w_console w @ [entry]\<rparr>"

definition getJson :: "env \<Rightarrow> string \<Rightarrow> world \<Rightarrow> (error + response) \<times> world" where
  "getJson env url w =
     (env_client env (w_requests w) (w_clock w) (GetJson url),
      w\<lparr>w_requests := w_requests w @ [GetJson url]\<rparr>)"

definition postJson :: "env \<Rightarrow> string \<Rightarrow> body \<Rightarrow> world \<Rightarrow> (error + response) \<times> world" where
  "postJson env url b w =
     (env_client env (w_requests w) (w_clock w) (PostJson url b),
      w\<lparr>w_requests := w_requests w @ [PostJson url b]\<rparr>)"

text \<open>
  Modelled from the spec: \<^verbatim>\<open>CachingService.transaction\<close> is not among the sources. A live
  entry for the key is returned without invoking the fetch; otherwise the fetch runs, a result
  is stored with expiry \<open>now + ttlSeconds\<close>, and a failure is passed on and stores nothing.
  (The in-flight marker only matters to overlapping calls.)
\<close>

definition transaction ::
  "string \<Rightarrow> (world \<Rightarrow> (error + response) \<times> world) \<Rightarrow> nat \<Rightarrow> world
   \<Rightarrow> (error + response) \<times> world" where
  "transaction key fetchFn ttlSeconds w =
     (let fetched =
        (case fetchFn w of
           (Inl e, w1) \<Rightarrow> (Inl e, w1)
         | (Inr v, w1) \<Rightarrow>
             (Inr v, w1\<lparr>w_cache := (w_cache w1)(key \<mapsto> (v, w_clock w1 + ttlSeconds))\<rparr>))
      in case w_cache w key of
           None \<Rightarrow> fetched
         | Some (v, expiresAt) \<Rightarrow> if w_clock w < expiresAt then (Inr v, w) else fetched)"

definition CHANGELOG_CACHE_TTL_SEC :: nat where
  "CHANGELOG_CACHE_TTL_SEC = 30 * 60"

subsection \<open>Remote lookups\<close>

definition getReleaseById ::
  "env \<Rightarrow> string \<Rightarrow> string \<Rightarrow> world \<Rightarrow> (error + response) \<times> world" where
  "getReleaseById env addonId releaseId w =
     (let url = env_API_URL env @ ''/addons/'' @ addonId @ ''/releases/'' @ releaseId
      in transaction url (getJson env url) CHANGELOG_CACHE_TTL_SEC w)"

text \<open>
  The \<^verbatim>\<open>try\<close> encloses the only call that can throw, so the method always resolves to a
  string: the result type has no error.
\<close>

definition getChangelog ::
  "env \<Rightarrow> WowInstallation \<Rightarrow> string \<Rightarrow> string \<Rightarrow> world \<Rightarrow> string \<times> world" where
  "getChangelog env installation externalId externalReleaseId w =
     (case getReleaseById env externalId externalReleaseId (console (ConsoleDebug ''getChangelog'') w) of
        (Inr addon, w1) \<Rightarrow>
          ((case addon of
              WowUpGetAddonReleaseResponse (Some release) \<Rightarrow>
                (case rel_body release of Some b \<Rightarrow> b | None \<Rightarrow> [])
            | _ \<Rightarrow> []), w1)
      | (Inl e, w1) \<Rightarrow> ([], console (ConsoleErrorMsg ''Failed to get changelog'' e) w1))"

definition getScanResults :: "env \<Rightarrow> AddonFolder list \<Rightarrow> error + AppWowUpScanResult list" where
  "getScanResults env addonFolders =
     (let filePaths = map af_path addonFolders in env_invoke env filePaths)"

definition getAddonsByFingerprints ::
  "env \<Rightarrow> string list \<Rightarrow> world \<Rightarrow> (error + response) \<times> world" where
  "getAddonsByFingerprints env fingerprints w =
     (let url = env_API_URL env @ ''/addons/fingerprint''
      in postJson env url (FingerprintsBody fingerprints) w)"

subsection \<open>Search results\<close>

definition getSearchResultFile ::
  "env \<Rightarrow> WowUpAddonReleaseRepresentation \<Rightarrow> WowGameType \<Rightarrow> AddonSearchResultFile" where
  "getSearchResultFile env release gameType =
     (let matchingVersion = getMatchingVersion release gameType;
          version = (case matchingVersion of Some gv \<Rightarrow> gv_version gv | None \<Rightarrow> rel_tag_name release)
      in \<lparr> file_channelType = getAddonReleaseChannel release,
           file_downloadUrl = rel_download_url release,
           file_folders = [],
           file_gameVersion = env_getGameVersion env (map_option gv_interface matchingVersion),
           file_releaseDate = rel_published_at release,
           file_version = version,
           file_dependencies = [],
           file_changelog = rel_body release,
           file_externalId = toString (rel_id release),
           file_title = map_option gv_title matchingVersion,
           file_authors = map_option gv_authors matchingVersion \<rparr>)"

text \<open>\<^verbatim>\<open>new Date()\<close> is the clock of the world the result is built in.\<close>

definition getSearchResult ::
  "env \<Rightarrow> world \<Rightarrow> WowUpAddonRepresentation \<Rightarrow> WowGameType \<Rightarrow> AddonSearchResult" where
  "getSearchResult env w representation gameType =
     (let clientReleases = filterReleases representation gameType;
          searchResultFiles = map (\<lambda>release. getSearchResultFile env release gameType) clientReleases;
          firstFile = (case searchResultFiles of [] \<Rightarrow> None | f # _ \<Rightarrow> Some f);
          name = (case Option.bind firstFile file_title of
                    Some t \<Rightarrow> t | None \<Rightarrow> rep_repository_name representation);
          authors = (case Option.bind firstFile file_authors of
                       Some a \<Rightarrow> a | None \<Rightarrow> rep_owner_name representation)
      in \<lparr> res_author = authors,
           res_externalId = toString (rep_id representation),
           res_externalUrl = rep_repository representation,
           res_name = name,
           res_providerName = env_ADDON_PROVIDER_HUB env,
           res_thumbnailUrl =
             (if rep_image_url representation \<noteq> [] then rep_image_url representation
              else rep_owner_image_url representation),
           res_downloadCount = rep_total_download_count representation,
           res_files = searchResultFiles,
           res_releasedAt = w_clock w,
           res_screenshotUrl = [],
           res_screenshotUrls = [],
           res_summary = rep_description representation,
           res_fundingLinks = rep_funding_links representation \<rparr>)"

text \<open>
  \<^verbatim>\<open>response?.addons\<close> under lodash's \<^verbatim>\<open>_.map\<close>: a response without the field maps to
  the empty list.
\<close>

definition responseAddons :: "response \<Rightarrow> WowUpAddonRepresentation list" where
  "responseAddons r = (case r of GetAddonBatchResponse addons \<Rightarrow> addons | _ \<Rightarrow> [])"

definition getAll ::
  "env \<Rightarrow> WowInstallation \<Rightarrow> string list \<Rightarrow> world \<Rightarrow> (error + GetAllResult) \<times> world" where
  "getAll env installation addonIds w =
     (let gameType = getWowGameType (inst_clientType installation);
          url = env_API_URL env @ ''/addons/batch/'' @ env_gameTypeText env gameType;
          addonIdList = map parseInt addonIds
      in case postJson env url (AddonIdsBody addonIdList) w of
           (Inl e, w1) \<Rightarrow> (Inl e, w1)
         | (Inr r, w1) \<Rightarrow>
             (let searchResults =
                    map (\<lambda>addon. getSearchResult env w1 addon gameType) (responseAddons r);
                  missingAddonIds =
                    filter (\<lambda>addonId. find (\<lambda>sr. res_externalId sr = addonId) searchResults = None)
                      addonIds;
                  deletedErrors = map (\<lambda>addonId. SourceRemovedAddonError addonId None) missingAddonIds
              in (Inr \<lparr> gar_errors = deletedErrors, gar_searchResults = searchResults \<rparr>, w1)))"

subsection \<open>Scanning\<close>

text \<open>
  \<^verbatim>\<open>getAddon\<close> throws in two places: reading \<^verbatim>\<open>scanResult.exactMatch.matched_release\<close>
  when there is no exact match, and reading \<^verbatim>\<open>matchingVersion.interface\<close> for the warning
  when the release declares no game version at all (\<^verbatim>\<open>game_versions[0]\<close> is
  \<^verbatim>\<open>undefined\<close>). Both happen before the identifier is drawn and before anything is logged.
\<close>

definition getAddon ::
  "env \<Rightarrow> WowInstallation \<Rightarrow> AddonChannelType \<Rightarrow> AppWowUpScanResult \<Rightarrow> world
   \<Rightarrow> (error + Addon) \<times> world" where
  "getAddon env installation addonChannelType scanResult w =
     (case sr_exactMatch scanResult of
        None \<Rightarrow> (Inl TypeError, w)
      | Some exactMatch \<Rightarrow>
          (let gameType = getWowGameType (inst_clientType installation);
               release = fm_matched_release exactMatch;
               folders = map rf_folder_name (rel_addonFolders release);
               folderList = join '', '' folders;
               channelType = addonChannelType;
               found = getMatchingVersion release gameType;
               fallback = (case rel_game_versions release of [] \<Rightarrow> None | gv # _ \<Rightarrow> Some gv)
           in if found = None \<and> fallback = None then (Inl TypeError, w)
              else
                (let matchingVersion = (if found = None then fallback else found);
                     w1 = (if found = None
                           then console (ConsoleWarn (''No matching version found: ''
                                  @ fm_repository_name exactMatch @ '', using fallback ''
                                  @ (case fallback of Some gv \<Rightarrow> gv_interface gv | None \<Rightarrow> []))) w
                           else w);
                     name = (case matchingVersion of
                               Some gv \<Rightarrow> gv_title gv | None \<Rightarrow> fm_repository_name exactMatch);
                     version = (case matchingVersion of
                                  Some gv \<Rightarrow> gv_version gv | None \<Rightarrow> rel_tag_name release);
                     authors = (case matchingVersion of
                                  Some gv \<Rightarrow> gv_authors gv | None \<Rightarrow> fm_owner_name exactMatch);
                     interfaceVer = map_option gv_interface matchingVersion
                 in (Inr \<lparr> addon_id = w_uuids w1,
                           addon_author = authors,
                           addon_name = name,
                           addon_channelType = channelType,
                           addon_autoUpdateEnabled = False,
                           addon_clientType = inst_clientType installation,
                           addon_downloadUrl = rel_download_url release,
                           addon_externalUrl = fm_repository exactMatch,
                           addon_externalId = toString (fm_id exactMatch),
                           addon_gameVersion = env_getGameVersion env interfaceVer,
                           addon_installedAt = w_clock w1,
                           addon_installedFolders = folderList,
                           addon_installedFolderList = folders,
                           addon_installedVersion = version,
                           addon_installedExternalReleaseId = toString (rel_id release),
                           addon_isIgnored = False,
                           addon_latestVersion = version,
                           addon_providerName = env_ADDON_PROVIDER_HUB env,
                           addon_providerSource = fm_source exactMatch,
                           addon_thumbnailUrl = fm_image_url exactMatch,
                           addon_fundingLinks = fm_funding_links exactMatch,
                           addon_isLoadOnDemand = False,
                           addon_releasedAt = rel_published_at release,
                           addon_externalChannel = env_getEnumName env channelType,
                           addon_latestChangelog = rel_body release,
                           addon_externalLatestReleaseId = toString (rel_id release),
                           addon_installationId = inst_id installation \<rparr>,
                     w1\<lparr>w_uuids := Suc (w_uuids w1)\<rparr>))))"

text \<open>
  The body of the first \<^verbatim>\<open>for\<close> loop of \<^verbatim>\<open>scan\<close>: the matches of the batch response whose
  release lists the folder's fingerprint, the first of them that declares the game type, else
  the first of them with a warning. A response without \<^verbatim>\<open>exactMatches\<close> makes
  \<^verbatim>\<open>.filter\<close> throw.
\<close>

definition fingerprintMatches :: "FingerprintMatch list \<Rightarrow> AppWowUpScanResult \<Rightarrow> FingerprintMatch list" where
  "fingerprintMatches exactMatches scanResult =
     filter (\<lambda>exactMatch. hasMatchingFingerprint scanResult (fm_matched_release exactMatch))
       exactMatches"

definition scan_matchStep ::
  "WowGameType \<Rightarrow> response \<Rightarrow> AppWowUpScanResult \<Rightarrow> world
   \<Rightarrow> (error + AppWowUpScanResult) \<times> world" where
  "scan_matchStep gameType fingerprintResponse scanResult w =
     (case fingerprintResponse of
        GetAddonsByFingerprintResponse exactMatches \<Rightarrow>
          (let fms = fingerprintMatches exactMatches scanResult;
               clientMatch = find (\<lambda>exactMatch. hasGameType (fm_matched_release exactMatch) gameType) fms
           in if clientMatch = None \<and> length fms > 0
              then (Inr (scanResult\<lparr>sr_exactMatch := Some (fms ! 0)\<rparr>),
                    console (ConsoleWarn (''No matching client type found for ''
                      @ sr_folderName scanResult @ '', using fallback'')) w)
              else (Inr (scanResult\<lparr>sr_exactMatch := clientMatch\<rparr>), w))
      | _ \<Rightarrow> (Inl TypeError, w))"

fun scan_matchLoop ::
  "WowGameType \<Rightarrow> response \<Rightarrow> AppWowUpScanResult list \<Rightarrow> world
   \<Rightarrow> (error + AppWowUpScanResult list) \<times> world" where
  "scan_matchLoop gameType fingerprintResponse [] w = (Inr [], w)"
| "scan_matchLoop gameType fingerprintResponse (scanResult # rest) w =
     (case scan_matchStep gameType fingerprintResponse scanResult w of
        (Inl e, w1) \<Rightarrow> (Inl e, w1)
      | (Inr scanResult', w1) \<Rightarrow>
          (case scan_matchLoop gameType fingerprintResponse rest w1 of
             (Inl e, w2) \<Rightarrow> (Inl e, w2)
           | (Inr rest', w2) \<Rightarrow> (Inr (scanResult' # rest'), w2)))"

text \<open>
  The second \<^verbatim>\<open>for\<close> loop of \<^verbatim>\<open>scan\<close>, over the addon folders. It returns the exception
  that ended it, if any, the folders as the loop left them, and the world. A folder whose
  path has no scan result makes \<^verbatim>\<open>scanResult.exactMatch\<close> throw outside the \<^verbatim>\<open>try\<close>:
  the loop ends there and the folders after it are untouched.
\<close>

fun scan_addonLoop ::
  "env \<Rightarrow> WowInstallation \<Rightarrow> AddonChannelType \<Rightarrow> AppWowUpScanResult list \<Rightarrow> AddonFolder list
   \<Rightarrow> world \<Rightarrow> error option \<times> AddonFolder list \<times> world" where
  "scan_addonLoop env installation addonChannelType scanResults [] w = (None, [], w)"
| "scan_addonLoop env installation addonChannelType scanResults (addonFolder # rest) w =
     (case find (\<lambda>sr. sr_path sr = af_path addonFolder) scanResults of
        None \<Rightarrow> (Some TypeError, addonFolder # rest, w)
      | Some scanResult \<Rightarrow>
          if sr_exactMatch scanResult = None
          then (case scan_addonLoop env installation addonChannelType scanResults rest w of
                  (r, rest', w') \<Rightarrow> (r, addonFolder # rest', w'))
          else
            (case getAddon env installation addonChannelType scanResult w of
               (Inr newAddon, w1) \<Rightarrow>
                 (case scan_addonLoop env installation addonChannelType scanResults rest w1 of
                    (r, rest', w') \<Rightarrow>
                      (r, addonFolder\<lparr>af_matchingAddon := Some newAddon\<rparr> # rest', w'))
             | (Inl err, w1) \<Rightarrow>
                 (case scan_addonLoop env installation addonChannelType scanResults rest
                         (console (ConsoleError err) (console (ConsoleErrorScanResult scanResult) w1)) of
                    (r, rest', w') \<Rightarrow> (r, addonFolder # rest', w'))))"

text \<open>
  \<^verbatim>\<open>scan\<close> returns nothing; it writes \<^verbatim>\<open>matchingAddon\<close> into the folders it is given. The
  model returns the exception it was rejected with, if any, the folders and the world.
\<close>

definition scan ::
  "env \<Rightarrow> WowInstallation \<Rightarrow> AddonChannelType \<Rightarrow> AddonFolder list \<Rightarrow> world
   \<Rightarrow> error option \<times> AddonFolder list \<times> world" where
  "scan env installation addonChannelType addonFolders w =
     (let gameType = getWowGameType (inst_clientType installation);
          w1 = console (ConsoleTime ''WowUpScan'') w
      in case getScanResults env addonFolders of
           Inl e \<Rightarrow> (Some e, addonFolders, w1)
         | Inr scanResults \<Rightarrow>
             (let w2 = console (ConsoleTimeEnd ''WowUpScan'') w1;
                  fingerprints = map sr_fingerprint scanResults;
                  w3 = console (ConsoleLog ''[WowUpFingerprints]'' fingerprints) w2
              in case getAddonsByFingerprints env fingerprints w3 of
                   (Inl e, w4) \<Rightarrow> (Some e, addonFolders, w4)
                 | (Inr fingerprintResponse, w4) \<Rightarrow>
                     (case scan_matchLoop gameType fingerprintResponse scanResults w4 of
                        (Inl e, w5) \<Rightarrow> (Some e, addonFolders, w5)
                      | (Inr matched, w5) \<Rightarrow>
                          scan_addonLoop env installation addonChannelType matched addonFolders w5)))"

text \<open>
  The value of \<^verbatim>\<open>clientMatch\<close> when the body of the first loop ends: the first fingerprint
  match that declares the game type, else the first fingerprint match, else nothing.
\<close>

abbreviation clientMatch ::
  "WowGameType \<Rightarrow> FingerprintMatch list \<Rightarrow> AppWowUpScanResult \<Rightarrow> FingerprintMatch option" where
  "clientMatch gameType exactMatches scanResult \<equiv>
     (case find (\<lambda>exactMatch. hasGameType (fm_matched_release exactMatch) gameType)
             (fingerprintMatches exactMatches scanResult) of
        Some m \<Rightarrow> Some m
      | None \<Rightarrow> (case fingerprintMatches exactMatches scanResult of
                   [] \<Rightarrow> None | m # _ \<Rightarrow> Some m))"

subsection \<open>Example inputs\<close>

text \<open>
  Small inputs on which the definitions are run: a game version, a release, a fingerprint
  match and a catalog entry built from the parts that vary, a scanner that returns given scan
  results, a client that answers by a given function, and a fresh world.
\<close>

definition example_gv :: "WowGameType \<Rightarrow> WowUpAddonGameVersion" where
  "example_gv gameType =
     \<lparr> gv_interface = ''90100'', gv_title = ''Bags'', gv_game_type = gameType,
       gv_version = ''1.2.0'', gv_authors = ''ann'' \<rparr>"

definition example_folder :: "string \<Rightarrow> string \<Rightarrow> WowUpAddonFolder" where
  "example_folder name fp = \<lparr> rf_folder_name = name, rf_fingerprint = fp \<rparr>"

definition example_release ::
  "int \<Rightarrow> bool \<Rightarrow> WowUpAddonGameVersion list \<Rightarrow> WowUpAddonFolder list
   \<Rightarrow> WowUpAddonReleaseRepresentation" where
  "example_release i pre gvs folders =
     \<lparr> rel_id = i, rel_tag_name = ''v1'', rel_prerelease = pre,
       rel_published_at = ''2021-06-01'', rel_download_url = ''https://hub/bags.zip'',
       rel_body = None, rel_game_versions = gvs, rel_addonFolders = folders \<rparr>"

definition example_match :: "int \<Rightarrow> WowUpAddonReleaseRepresentation \<Rightarrow> FingerprintMatch" where
  "example_match i release =
     \<lparr> fm_id = i, fm_repository_name = ''bags'', fm_owner_name = ''ann'',
       fm_repository = ''https://git/bags'', fm_source = ''github'', fm_image_url = [],
       fm_funding_links = [], fm_matched_release = release \<rparr>"

definition example_representation :: "int \<Rightarrow> WowUpAddonRepresentation" where
  "example_representation i =
     \<lparr> rep_id = i, rep_repository_name = ''bags'', rep_owner_name = ''ann'',
       rep_repository = ''https://git/bags'', rep_image_url = [], rep_owner_image_url = [],
       rep_description = [], rep_total_download_count = 0, rep_funding_links = [],
       rep_releases = [] \<rparr>"

definition example_scanResult :: "string \<Rightarrow> string \<Rightarrow> string \<Rightarrow> AppWowUpScanResult" where
  "example_scanResult p fp name =
     \<lparr> sr_path = p, sr_fingerprint = fp, sr_folderName = name, sr_exactMatch = None \<rparr>"

definition example_addonFolder :: "string \<Rightarrow> AddonFolder" where
  "example_addonFolder p = \<lparr> af_path = p, af_matchingAddon = None \<rparr>"

definition example_env ::
  "AppWowUpScanResult list \<Rightarrow> (request \<Rightarrow> error + response) \<Rightarrow> env" where
  "example_env scanResults answer =
     \<lparr> env_API_URL = ''https://hub'',
       env_ADDON_PROVIDER_HUB = ''WowUpHub'',
       env_gameTypeText = (\<lambda>g. case g of WowGameType_Retail \<Rightarrow> ''retail''
           | WowGameType_Classic \<Rightarrow> ''classic''
           | WowGameType_BurningCrusade \<Rightarrow> ''burningCrusade''),
       env_getGameVersion = (\<lambda>v. v),
       env_getEnumName = (\<lambda>c. case c of AddonChannelType_Stable \<Rightarrow> ''Stable''
           | AddonChannelType_Beta \<Rightarrow> ''Beta''),
       env_invoke = (\<lambda>paths. Inr scanResults),
       env_client = (\<lambda>before now. answer) \<rparr>"

definition example_world :: world where
  "example_world =
     \<lparr> w_requests = [], w_cache = (\<lambda>k. None), w_clock = 1000, w_uuids = 0, w_console = [] \<rparr>"

definition example_installation :: WowInstallation where
  "example_installation = \<lparr> inst_id = ''inst-1'', inst_clientType = WowClientType_Retail \<rparr>"

definition example_classic_match :: FingerprintMatch where
  "example_classic_match =
     example_match 7 (example_release 70 False [example_gv WowGameType_Classic]
       [example_folder ''Bags'' ''f1''])"

definition example_retail_match :: FingerprintMatch where
  "example_retail_match =
     example_match 8 (example_release 80 True [example_gv WowGameType_Retail]
       [example_folder ''Bags'' ''f1'', example_folder ''Bags_Config'' ''f2''])"

definition example_scan_env :: env where
  "example_scan_env =
     example_env [example_scanResult ''/a/Bags'' ''f1'' ''Bags'']
       (\<lambda>req. Inr (GetAddonsByFingerprintResponse [example_classic_match, example_retail_match]))"

definition example_retail_addon :: Addon where
  "example_retail_addon =
     \<lparr> addon_id = 0, addon_author = ''ann'', addon_name = ''Bags'',
       addon_channelType = AddonChannelType_Stable, addon_autoUpdateEnabled = False,
       addon_clientType = WowClientType_Retail, addon_downloadUrl = ''https://hub/bags.zip'',
       addon_externalUrl = ''https://git/bags'', addon_externalId = ''8'',
       addon_gameVersion = Some ''90100'', addon_installedAt = 1000,
       addon_installedFolders = ''Bags, Bags_Config'',
       addon_installedFolderList = [''Bags'', ''Bags_Config''],
       addon_installedVersion = ''1.2.0'', addon_installedExternalReleaseId = ''80'',
       addon_isIgnored = False, addon_latestVersion = ''1.2.0'',
       addon_providerName = ''WowUpHub'', addon_providerSource = ''github'',
       addon_thumbnailUrl = [], addon_fundingLinks = [], addon_isLoadOnDemand = False,
       addon_releasedAt = ''2021-06-01'', addon_externalChannel = ''Stable'',
       addon_latestChangelog = None, addon_externalLatestReleaseId = ''80'',
       addon_installationId = ''inst-1'' \<rparr>"

definition example_broken_match :: FingerprintMatch where
  "example_broken_match =
     example_match 9 (example_release 90 False [] [example_folder ''Broken'' ''f9''])"

definition example_batch_env :: env where
  "example_batch_env =
     example_env [] (\<lambda>req. Inr (GetAddonBatchResponse
        [example_representation 1, example_representation 3]))"

section \<open>Properties\<close>



lemmas example_defs =
  example_gv_def example_folder_def example_release_def example_match_def
  example_representation_def example_scanResult_def example_addonFolder_def example_env_def
  example_world_def example_installation_def example_classic_match_def
  example_retail_match_def example_scan_env_def

lemmas scan_defs =
  scan_def getScanResults_def getAddonsByFingerprints_def postJson_def console_def
  scan_matchStep_def fingerprintMatches_def hasMatchingFingerprint_def hasGameType_def
  getMatchingVersion_def getAddon_def Let_def

subsection \<open>What \<^verbatim>\<open>getAddon\<close> builds and when it throws\<close>

lemma getAddon_Inr:
  assumes "getAddon env installation addonChannelType scanResult w = (Inr a, w')"
  shows "\<exists>m. sr_exactMatch scanResult = Some m
           \<and> addon_channelType a = addonChannelType
           \<and> addon_installedVersion a = addon_latestVersion a
           \<and> addon_installedExternalReleaseId a = addon_externalLatestReleaseId a
           \<and> addon_installedFolderList a = map rf_folder_name (rel_addonFolders (fm_matched_release m))
           \<and> addon_installedFolders a = join '', '' (addon_installedFolderList a)"
  using assms
  by (auto simp: getAddon_def Let_def split: option.splits if_splits)

lemma getAddon_Inl:
  assumes "getAddon env installation addonChannelType scanResult w = (Inl e, w')"
  shows "e = TypeError \<and> w' = w"
  using assms
  by (auto simp: getAddon_def Let_def split: option.splits if_splits)

lemma getAddon_throws_iff:
  "(\<exists>e w'. getAddon env installation ch sr w = (Inl e, w'))
   \<longleftrightarrow> (sr_exactMatch sr = None
        \<or> (\<exists>m. sr_exactMatch sr = Some m \<and> rel_game_versions (fm_matched_release m) = []))"
  by (auto simp: getAddon_def getMatchingVersion_def Let_def split: option.splits list.splits)

lemma getAddon_keeps:
  "getAddon env installation ch sr w = (res, w') \<Longrightarrow>
   w_requests w' = w_requests w \<and> w_cache w' = w_cache w"
  by (auto simp: getAddon_def console_def Let_def split: option.splits if_splits)

subsection \<open>The first loop: the match selected for a scan result\<close>

lemma scan_matchStep_selects:
  "\<exists>w'. scan_matchStep gameType (GetAddonsByFingerprintResponse exactMatches) scanResult w =
     (Inr (scanResult\<lparr>sr_exactMatch := clientMatch gameType exactMatches scanResult\<rparr>), w')"
  by (cases "fingerprintMatches exactMatches scanResult")
     (auto simp: scan_matchStep_def Let_def split: option.splits)

lemma scan_matchLoop_selects:
  "\<exists>w'. scan_matchLoop gameType (GetAddonsByFingerprintResponse exactMatches) scanResults w =
     (Inr (map (\<lambda>scanResult. scanResult\<lparr>sr_exactMatch :=
                  clientMatch gameType exactMatches scanResult\<rparr>) scanResults), w')"
proof (induction scanResults arbitrary: w)
  case Nil
  then show ?case by simp
next
  case (Cons scanResult rest)
  obtain w1 where a: "scan_matchStep gameType (GetAddonsByFingerprintResponse exactMatches) scanResult w =
     (Inr (scanResult\<lparr>sr_exactMatch := clientMatch gameType exactMatches scanResult\<rparr>), w1)"
    using scan_matchStep_selects by blast
  from Cons.IH [of w1] obtain w2 where
    b: "scan_matchLoop gameType (GetAddonsByFingerprintResponse exactMatches) rest w1 =
     (Inr (map (\<lambda>scanResult. scanResult\<lparr>sr_exactMatch :=
                  clientMatch gameType exactMatches scanResult\<rparr>) rest), w2)"
    by blast
  show ?case by (simp add: a b)
qed

lemma find_unique_index:
  assumes "i < length xs" and "P (xs ! i)" and "\<forall>j<length xs. j \<noteq> i \<longrightarrow> \<not> P (xs ! j)"
  shows "find P xs = Some (xs ! i)"
proof -
  have "\<forall>j<i. \<not> P (xs ! j)" using assms by auto
  with assms(1,2) show ?thesis unfolding find_Some_iff by blast
qed

lemma clientMatch_fallback:
  assumes "fingerprintMatches exactMatches scanResult = m # rest"
      and "\<forall>x \<in> set (m # rest). \<not> hasGameType (fm_matched_release x) gameType"
  shows "clientMatch gameType exactMatches scanResult = Some m"
proof -
  have "find (\<lambda>x. hasGameType (fm_matched_release x) gameType) (m # rest) = None"
    using assms(2) unfolding find_None_iff by blast
  with assms(1) show ?thesis by simp
qed

lemma scan_matchLoop_other_response:
  assumes "\<forall>ms. response \<noteq> GetAddonsByFingerprintResponse ms"
      and "scan_matchLoop gameType response srs w = (Inr matched, w')"
  shows "matched = []"
  using assms
  by (cases srs) (auto simp: scan_matchStep_def split: response.splits prod.splits sum.splits)

lemma scan_matchStep_keeps:
  "scan_matchStep gameType response sr w = (res, w') \<Longrightarrow>
   w_requests w' = w_requests w \<and> w_cache w' = w_cache w"
  by (auto simp: scan_matchStep_def console_def Let_def split: response.splits if_splits)

lemma scan_matchLoop_keeps:
  "scan_matchLoop gameType response srs w = (res, w') \<Longrightarrow>
   w_requests w' = w_requests w \<and> w_cache w' = w_cache w"
proof (induction srs arbitrary: w res w')
  case Nil
  then show ?case by simp
next
  case (Cons sr rest)
  obtain r1 w1 where a: "scan_matchStep gameType response sr w = (r1, w1)"
    by (cases "scan_matchStep gameType response sr w")
  note k1 = scan_matchStep_keeps [OF a]
  show ?case
  proof (cases r1)
    case (Inl e)
    with a Cons.prems k1 show ?thesis by simp
  next
    case (Inr sr')
    obtain r2 w2 where b: "scan_matchLoop gameType response rest w1 = (r2, w2)"
      by (cases "scan_matchLoop gameType response rest w1")
    from Cons.IH [OF b] k1 have "w_requests w2 = w_requests w \<and> w_cache w2 = w_cache w"
      by simp
    with a b Inr Cons.prems show ?thesis
      by (cases r2) auto
  qed
qed

subsection \<open>The second loop: the entities attached to the folders\<close>

lemma scan_addonLoop_built:
  "scan_addonLoop env installation ch srs afs w = (r, afs', w') \<Longrightarrow>
   list_all2 (\<lambda>af af'. af' = af \<or>
       (\<exists>sr wa wb a. find (\<lambda>sr. sr_path sr = af_path af) srs = Some sr
          \<and> getAddon env installation ch sr wa = (Inr a, wb)
          \<and> af' = af\<lparr>af_matchingAddon := Some a\<rparr>)) afs afs'"
proof (induction afs arbitrary: w r afs' w')
  case Nil
  then show ?case by simp
next
  case (Cons af rest)
  show ?case
  proof (cases "find (\<lambda>sr. sr_path sr = af_path af) srs")
    case None
    with Cons.prems show ?thesis
      by (auto simp: list_all2_refl list.rel_refl)
  next
    case (Some sr)
    show ?thesis
    proof (cases "sr_exactMatch sr = None")
      case True
      with Some Cons.prems Cons.IH show ?thesis
        by (auto split: prod.splits)
    next
      case False
      show ?thesis
      proof (cases "getAddon env installation ch sr w")
        case (Pair res w1)
        show ?thesis
        proof (cases res)
          case (Inl err)
          with Pair False Some Cons.prems Cons.IH show ?thesis
            by (auto split: prod.splits)
        next
          case (Inr newAddon)
          with Pair False Some Cons.prems Cons.IH show ?thesis
            by (fastforce split: prod.splits)
        qed
      qed
    qed
  qed
qed

lemma scan_addonLoop_append:
  "scan_addonLoop env installation ch srs (xs @ ys) w =
     (case scan_addonLoop env installation ch srs xs w of
        (None, xs', w1) \<Rightarrow>
          (case scan_addonLoop env installation ch srs ys w1 of
             (r, ys', w2) \<Rightarrow> (r, xs' @ ys', w2))
      | (Some e, xs', w1) \<Rightarrow> (Some e, xs' @ ys, w1))"
proof (induction xs arbitrary: w)
  case Nil
  then show ?case by (simp split: prod.splits)
next
  case (Cons af rest)
  have step: "(case scan_addonLoop env installation ch srs (rest @ ys) wx of
                 (r, rest', w') \<Rightarrow> (r, f rest', w')) =
              (case (case scan_addonLoop env installation ch srs rest wx of
                       (r, rest', w') \<Rightarrow> (r, f rest', w')) of
                 (None, xs', w1) \<Rightarrow>
                   (case scan_addonLoop env installation ch srs ys w1 of
                      (r, ys', w2) \<Rightarrow> (r, xs' @ ys', w2))
               | (Some e, xs', w1) \<Rightarrow> (Some e, xs' @ ys, w1))"
    if "\<And>zs. f zs @ ys = f (zs @ ys)" "\<And>zs us. f zs @ us = f (zs @ us)" for wx f
  proof -
    obtain r1 rest1 w1 where a: "scan_addonLoop env installation ch srs rest wx = (r1, rest1, w1)"
      by (cases "scan_addonLoop env installation ch srs rest wx") auto
    obtain r2 ys2 w2 where b: "scan_addonLoop env installation ch srs ys w1 = (r2, ys2, w2)"
      by (cases "scan_addonLoop env installation ch srs ys w1") auto
    show ?thesis
      by (cases r1) (simp_all add: Cons.IH a b that)
  qed
  show ?case
  proof (cases "find (\<lambda>sr. sr_path sr = af_path af) srs")
    case None
    then show ?thesis by simp
  next
    case (Some sr)
    show ?thesis
    proof (cases "sr_exactMatch sr")
      case None
      with Some show ?thesis
        using step [of "\<lambda>zs. af # zs" w] by simp
    next
      case (Some m)
      obtain res w1 where g: "getAddon env installation ch sr w = (res, w1)"
        by (cases "getAddon env installation ch sr w")
      show ?thesis
      proof (cases res)
        case (Inl err)
        with g Some \<open>find (\<lambda>sr. sr_path sr = af_path af) srs = Some sr\<close> show ?thesis
          using step [of "\<lambda>zs. af # zs" "console (ConsoleError err) (console (ConsoleErrorScanResult sr) w1)"]
          by simp
      next
        case (Inr newAddon)
        with g Some \<open>find (\<lambda>sr. sr_path sr = af_path af) srs = Some sr\<close> show ?thesis
          using step [of "\<lambda>zs. af\<lparr>af_matchingAddon := Some newAddon\<rparr> # zs" w1]
          by simp
      qed
    qed
  qed
qed

lemma scan_addonLoop_unmatched:
  "scan_addonLoop env installation ch [] afs w = (r, afs', w') \<Longrightarrow> afs' = afs"
  by (cases afs) auto

lemma scan_addonLoop_keeps:
  "scan_addonLoop env installation ch srs afs w = (r, afs', w') \<Longrightarrow>
   w_requests w' = w_requests w \<and> w_cache w' = w_cache w"
proof (induction afs arbitrary: w r afs' w')
  case Nil
  then show ?case by simp
next
  case (Cons af rest)
  show ?case
  proof (cases "find (\<lambda>sr. sr_path sr = af_path af) srs")
    case None
    with Cons.prems show ?thesis by simp
  next
    case (Some sr)
    show ?thesis
    proof (cases "sr_exactMatch sr")
      case None
      with Some Cons.prems Cons.IH show ?thesis
        by (auto split: prod.splits)
    next
      case (Some m)
      obtain res w1 where g: "getAddon env installation ch sr w = (res, w1)"
        by (cases "getAddon env installation ch sr w")
      note k = getAddon_keeps [OF g]
      show ?thesis
      proof (cases res)
        case (Inl err)
        obtain r2 rest2 w2 where b: "scan_addonLoop env installation ch srs rest
            (console (ConsoleError err) (console (ConsoleErrorScanResult sr) w1)) = (r2, rest2, w2)"
          by (cases "scan_addonLoop env installation ch srs rest
            (console (ConsoleError err) (console (ConsoleErrorScanResult sr) w1))") auto
        from Cons.IH [OF b] k have "w_requests w2 = w_requests w \<and> w_cache w2 = w_cache w"
          by (simp add: console_def)
        with Cons.prems g Inl Some \<open>find (\<lambda>sr. sr_path sr = af_path af) srs = Some sr\<close> b
        show ?thesis by simp
      next
        case (Inr newAddon)
        obtain r2 rest2 w2 where b: "scan_addonLoop env installation ch srs rest w1 = (r2, rest2, w2)"
          by (cases "scan_addonLoop env installation ch srs rest w1") auto
        from Cons.IH [OF b] k have "w_requests w2 = w_requests w \<and> w_cache w2 = w_cache w"
          by simp
        with Cons.prems g Inr Some \<open>find (\<lambda>sr. sr_path sr = af_path af) srs = Some sr\<close> b
        show ?thesis by simp
      qed
    qed
  qed
qed

lemma find_path_map:
  "find (\<lambda>sr. sr_path sr = p) (map (\<lambda>sr. sr\<lparr>sr_exactMatch := f sr\<rparr>) srs)
     = map_option (\<lambda>sr. sr\<lparr>sr_exactMatch := f sr\<rparr>) (find (\<lambda>sr. sr_path sr = p) srs)"
  by (induction srs) auto

subsection \<open>A scan pass\<close>

text \<open>
  Every folder comes out of \<^verbatim>\<open>scan\<close> either as it went in or with the entity that
  \<^verbatim>\<open>getAddon\<close> built for the scan result of its path; an entity is only attached when the
  folder scan and the fingerprint lookup both succeeded, and it is built from the match that
  the first loop selected.
\<close>

lemma scan_built:
  assumes "scan env installation ch afs w = (r, afs', w')"
  shows "list_all2 (\<lambda>af af'. af' = af \<or>
       (\<exists>sr wa wb a. sr_path sr = af_path af
          \<and> getAddon env installation ch sr wa = (Inr a, wb)
          \<and> af' = af\<lparr>af_matchingAddon := Some a\<rparr>)) afs afs'"
proof -
  have same: "list_all2 (\<lambda>af af'. af' = af \<or>
       (\<exists>sr wa wb a. sr_path sr = af_path af
          \<and> getAddon env installation ch sr wa = (Inr a, wb)
          \<and> af' = af\<lparr>af_matchingAddon := Some a\<rparr>)) afs afs"
    by (simp add: list.rel_refl)
  have loop: "list_all2 (\<lambda>af af'. af' = af \<or>
       (\<exists>sr wa wb a. sr_path sr = af_path af
          \<and> getAddon env installation ch sr wa = (Inr a, wb)
          \<and> af' = af\<lparr>af_matchingAddon := Some a\<rparr>)) afs afs'"
    if "scan_addonLoop env installation ch srs afs wx = (r, afs', w')" for srs wx
    using scan_addonLoop_built [OF that]
    by (rule list_all2_mono) (auto simp: find_Some_iff)
  from assms show ?thesis
    using same loop
    by (auto simp: scan_def Let_def split: sum.splits prod.splits)
qed

lemma scan_new_entity:
  assumes "scan env installation ch afs w = (r, afs', w')"
      and "i < length afs'"
      and "af_matchingAddon (afs' ! i) = Some a"
      and "af_matchingAddon (afs ! i) \<noteq> Some a"
  shows "\<exists>sr wa wb. sr_path sr = af_path (afs ! i)
           \<and> getAddon env installation ch sr wa = (Inr a, wb)"
proof -
  from scan_built [OF assms(1)] assms(2)
  have "afs' ! i = afs ! i \<or>
       (\<exists>sr wa wb b. sr_path sr = af_path (afs ! i)
          \<and> getAddon env installation ch sr wa = (Inr b, wb)
          \<and> afs' ! i = (afs ! i)\<lparr>af_matchingAddon := Some b\<rparr>)"
    by (auto simp: list_all2_conv_all_nth)
  with assms(3,4) obtain sr wa wb b where
    "sr_path sr = af_path (afs ! i)" "getAddon env installation ch sr wa = (Inr b, wb)"
    "afs' ! i = (afs ! i)\<lparr>af_matchingAddon := Some b\<rparr>"
    by auto
  moreover from this(3) assms(3) have "b = a" by simp
  ultimately show ?thesis by blast
qed

lemma scan_run:
  assumes "scan env installation ch afs w = (r, afs', w')"
      and "afs' \<noteq> afs"
  shows "\<exists>scanResults exactMatches w5.
           getScanResults env afs = Inr scanResults
           \<and> env_client env (w_requests w) (w_clock w)
                (PostJson (env_API_URL env @ ''/addons/fingerprint'')
                   (FingerprintsBody (map sr_fingerprint scanResults)))
               = Inr (GetAddonsByFingerprintResponse exactMatches)
           \<and> scan_addonLoop env installation ch
                (map (\<lambda>sr. sr\<lparr>sr_exactMatch :=
                        clientMatch (getWowGameType (inst_clientType installation)) exactMatches sr\<rparr>)
                   scanResults) afs w5
               = (r, afs', w')"
proof (cases "getScanResults env afs")
  case (Inl e)
  with assms show ?thesis by (simp add: scan_def Let_def)
next
  case (Inr scanResults)
  let ?w3 = "console (ConsoleLog ''[WowUpFingerprints]'' (map sr_fingerprint scanResults))
               (console (ConsoleTimeEnd ''WowUpScan'') (console (ConsoleTime ''WowUpScan'') w))"
  let ?gt = "getWowGameType (inst_clientType installation)"
  obtain res w4 where p: "getAddonsByFingerprints env (map sr_fingerprint scanResults) ?w3 = (res, w4)"
    by (cases "getAddonsByFingerprints env (map sr_fingerprint scanResults) ?w3")
  then have res: "res = env_client env (w_requests w) (w_clock w)
                (PostJson (env_API_URL env @ ''/addons/fingerprint'')
                   (FingerprintsBody (map sr_fingerprint scanResults)))"
    by (auto simp: getAddonsByFingerprints_def postJson_def console_def Let_def)
  show ?thesis
  proof (cases res)
    case (Inl e)
    with p Inr assms show ?thesis by (simp add: scan_def Let_def)
  next
    case answered: (Inr response)
    obtain r5 w5 where l1: "scan_matchLoop ?gt response scanResults w4 = (r5, w5)"
      by (cases "scan_matchLoop ?gt response scanResults w4")
    show ?thesis
    proof (cases r5)
      case (Inl e)
      with p answered l1 Inr assms show ?thesis by (simp add: scan_def Let_def)
    next
      case matched: (Inr matched)
      have loop2: "scan_addonLoop env installation ch matched afs w5 = (r, afs', w')"
        using assms(1) Inr p answered l1 matched by (simp add: scan_def Let_def)
      show ?thesis
      proof (cases "\<exists>ms. response = GetAddonsByFingerprintResponse ms")
        case True
        then obtain ms where ms: "response = GetAddonsByFingerprintResponse ms" by blast
        from scan_matchLoop_selects [of ?gt ms scanResults w4] l1 matched ms
        have m: "matched = map (\<lambda>sr. sr\<lparr>sr_exactMatch := clientMatch ?gt ms sr\<rparr>) scanResults"
          by auto
        have c: "env_client env (w_requests w) (w_clock w)
                (PostJson (env_API_URL env @ ''/addons/fingerprint'')
                   (FingerprintsBody (map sr_fingerprint scanResults)))
               = Inr (GetAddonsByFingerprintResponse ms)"
          using res answered ms by simp
        from loop2 have "scan_addonLoop env installation ch
            (map (\<lambda>sr. sr\<lparr>sr_exactMatch := clientMatch ?gt ms sr\<rparr>) scanResults) afs w5
              = (r, afs', w')"
          unfolding m .
        with Inr c show ?thesis by blast
      next
        case False
        then have "matched = []"
          using scan_matchLoop_other_response [of response ?gt scanResults w4 matched w5] l1 matched
          by auto
        with loop2 assms(2) scan_addonLoop_unmatched show ?thesis by blast
      qed
    qed
  qed
qed

lemma scan_entity_origin:
  assumes "scan env installation ch afs w = (r, afs', w')"
      and "i < length afs'"
      and "af_matchingAddon (afs' ! i) = Some a"
      and "af_matchingAddon (afs ! i) \<noteq> Some a"
  shows "\<exists>scanResults exactMatches scanResult exactMatch wa wb.
           getScanResults env afs = Inr scanResults
           \<and> env_client env (w_requests w) (w_clock w)
                (PostJson (env_API_URL env @ ''/addons/fingerprint'')
                   (FingerprintsBody (map sr_fingerprint scanResults)))
               = Inr (GetAddonsByFingerprintResponse exactMatches)
           \<and> find (\<lambda>sr. sr_path sr = af_path (afs ! i)) scanResults = Some scanResult
           \<and> clientMatch (getWowGameType (inst_clientType installation)) exactMatches scanResult
               = Some exactMatch
           \<and> getAddon env installation ch (scanResult\<lparr>sr_exactMatch := Some exactMatch\<rparr>) wa
               = (Inr a, wb)"
proof -
  let ?gt = "getWowGameType (inst_clientType installation)"
  from assms(3,4) have "afs' \<noteq> afs" by auto
  from scan_run [OF assms(1) this] obtain scanResults exactMatches w5 where
    scanned: "getScanResults env afs = Inr scanResults"
    and answered: "env_client env (w_requests w) (w_clock w)
                (PostJson (env_API_URL env @ ''/addons/fingerprint'')
                   (FingerprintsBody (map sr_fingerprint scanResults)))
               = Inr (GetAddonsByFingerprintResponse exactMatches)"
    and loop: "scan_addonLoop env installation ch
                (map (\<lambda>sr. sr\<lparr>sr_exactMatch := clientMatch ?gt exactMatches sr\<rparr>) scanResults)
                afs w5 = (r, afs', w')"
    by blast
  from scan_addonLoop_built [OF loop] assms(2)
  have "afs' ! i = afs ! i \<or>
       (\<exists>sr wa wb b.
          find (\<lambda>sr. sr_path sr = af_path (afs ! i))
            (map (\<lambda>sr. sr\<lparr>sr_exactMatch := clientMatch ?gt exactMatches sr\<rparr>) scanResults) = Some sr
          \<and> getAddon env installation ch sr wa = (Inr b, wb)
          \<and> afs' ! i = (afs ! i)\<lparr>af_matchingAddon := Some b\<rparr>)"
    by (auto simp: list_all2_conv_all_nth)
  with assms(3,4) obtain sr wa wb b where
    found: "find (\<lambda>sr. sr_path sr = af_path (afs ! i))
            (map (\<lambda>sr. sr\<lparr>sr_exactMatch := clientMatch ?gt exactMatches sr\<rparr>) scanResults) = Some sr"
    and built: "getAddon env installation ch sr wa = (Inr b, wb)"
    and attached: "afs' ! i = (afs ! i)\<lparr>af_matchingAddon := Some b\<rparr>"
    by auto
  from attached assms(3) have b: "b = a" by simp
  from found obtain sr0 where
    sr0: "find (\<lambda>sr. sr_path sr = af_path (afs ! i)) scanResults = Some sr0"
    and sr: "sr = sr0\<lparr>sr_exactMatch := clientMatch ?gt exactMatches sr0\<rparr>"
    unfolding find_path_map by auto
  from getAddon_Inr [OF built] obtain m where "sr_exactMatch sr = Some m" by blast
  with sr have m: "clientMatch ?gt exactMatches sr0 = Some m" by simp
  with sr have "sr = sr0\<lparr>sr_exactMatch := Some m\<rparr>" by simp
  with built b have "getAddon env installation ch (sr0\<lparr>sr_exactMatch := Some m\<rparr>) wa = (Inr a, wb)"
    by simp
  with scanned answered sr0 m show ?thesis by blast
qed

lemma scan_keeps:
  assumes "getScanResults env addonFolders = Inr scanResults"
  shows "w_requests (snd (snd (scan env installation ch addonFolders w)))
           = w_requests w @ [PostJson (env_API_URL env @ ''/addons/fingerprint'')
                               (FingerprintsBody (map sr_fingerprint scanResults))]
         \<and> w_cache (snd (snd (scan env installation ch addonFolders w))) = w_cache w"
proof -
  let ?w3 = "console (ConsoleLog ''[WowUpFingerprints]'' (map sr_fingerprint scanResults))
               (console (ConsoleTimeEnd ''WowUpScan'') (console (ConsoleTime ''WowUpScan'') w))"
  let ?req = "PostJson (env_API_URL env @ ''/addons/fingerprint'')
                (FingerprintsBody (map sr_fingerprint scanResults))"
  obtain res w4 where p: "getAddonsByFingerprints env (map sr_fingerprint scanResults) ?w3 = (res, w4)"
    by (cases "getAddonsByFingerprints env (map sr_fingerprint scanResults) ?w3")
  then have w4: "w_requests w4 = w_requests w @ [?req] \<and> w_cache w4 = w_cache w"
    by (auto simp: getAddonsByFingerprints_def postJson_def console_def Let_def)
  show ?thesis
  proof (cases res)
    case (Inl e)
    with p w4 assms show ?thesis by (simp add: scan_def Let_def)
  next
    case (Inr response)
    obtain r5 w5 where l1: "scan_matchLoop (getWowGameType (inst_clientType installation))
        response scanResults w4 = (r5, w5)"
      by (cases "scan_matchLoop (getWowGameType (inst_clientType installation)) response scanResults w4")
    note k5 = scan_matchLoop_keeps [OF l1]
    show ?thesis
    proof (cases r5)
      case (Inl e)
      with p Inr l1 k5 w4 assms show ?thesis by (simp add: scan_def Let_def)
    next
      case (Inr matched)
      obtain r6 afs6 w6 where l2: "scan_addonLoop env installation ch matched addonFolders w5
          = (r6, afs6, w6)"
        by (cases "scan_addonLoop env installation ch matched addonFolders w5") auto
      note k6 = scan_addonLoop_keeps [OF l2]
      from p \<open>res = Inr response\<close> l1 Inr l2 k5 k6 w4 assms show ?thesis
        by (simp add: scan_def Let_def)
    qed
  qed
qed

lemma example_scan_run:
  "scan example_scan_env example_installation AddonChannelType_Stable
     [example_addonFolder ''/a/Bags''] example_world
   = (None, [\<lparr> af_path = ''/a/Bags'', af_matchingAddon = Some example_retail_addon \<rparr>],
      \<lparr> w_requests = [PostJson ''https://hub/addons/fingerprint'' (FingerprintsBody [''f1''])],
        w_cache = (\<lambda>k. None), w_clock = 1000, w_uuids = 1,
        w_console = [ConsoleTime ''WowUpScan'', ConsoleTimeEnd ''WowUpScan'',
                     ConsoleLog ''[WowUpFingerprints]'' [''f1'']] \<rparr>)"
  by (simp add: example_retail_addon_def example_defs scan_defs
        toString_def digit_char_def)

subsection \<open>Batch lookup\<close>

lemma getSearchResult_externalId:
  "res_externalId (getSearchResult env w representation gameType) = toString (rep_id representation)"
  by (simp add: getSearchResult_def Let_def)

section \<open>Claims\<close>

text \<open>
  C1, as the claim states it, fails: the entity's channel is not derived from the matched
  release's prerelease flag. Scanning one folder with the channel preference Stable, the
  entity is built from release 80, a prerelease, and its channel is Stable, not Beta.
\<close>

theorem scan_channel_ignores_prerelease:
  "fst (snd (scan example_scan_env example_installation AddonChannelType_Stable
       [example_addonFolder ''/a/Bags''] example_world))
     = [\<lparr> af_path = ''/a/Bags'', af_matchingAddon = Some example_retail_addon \<rparr>]
   \<and> addon_installedExternalReleaseId example_retail_addon
       = toString (rel_id (fm_matched_release example_retail_match))
   \<and> rel_prerelease (fm_matched_release example_retail_match)
   \<and> getAddonReleaseChannel (fm_matched_release example_retail_match) = AddonChannelType_Beta
   \<and> addon_channelType example_retail_addon = AddonChannelType_Stable"
  by (simp add: example_scan_run)
     (simp add: example_retail_addon_def example_defs toString_def digit_char_def
        getAddonReleaseChannel_def)

text \<open>
  C1, amended. For every addon entity that a scan pass attaches to a folder, the entity's
  channel is the \<^verbatim>\<open>addonChannelType\<close> argument passed to \<^verbatim>\<open>scan\<close>, whatever the matched
  release's prerelease flag. The channel derived from the prerelease flag (Beta when
  prerelease is true, Stable otherwise) is what \<^verbatim>\<open>getSearchResultFile\<close> gives to the files
  of a search result.
\<close>

theorem scan_channel_is_argument:
  assumes "scan env installation addonChannelType addonFolders w = (r, addonFolders', w')"
      and "i < length addonFolders'"
      and "af_matchingAddon (addonFolders' ! i) = Some a"
      and "af_matchingAddon (addonFolders ! i) \<noteq> Some a"
  shows "addon_channelType a = addonChannelType
         \<and> file_channelType (getSearchResultFile env release gameType)
             = (if rel_prerelease release then AddonChannelType_Beta else AddonChannelType_Stable)"
proof -
  from scan_new_entity [OF assms] obtain sr wa wb where
    "getAddon env installation addonChannelType sr wa = (Inr a, wb)" by blast
  from getAddon_Inr [OF this] have "addon_channelType a = addonChannelType" by blast
  then show ?thesis
    by (simp add: getSearchResultFile_def getAddonReleaseChannel_def Let_def)
qed

theorem scan_channel_is_argument_witness:
  "fst (snd (scan example_scan_env example_installation AddonChannelType_Stable
       [example_addonFolder ''/a/Bags''] example_world))
     = [\<lparr> af_path = ''/a/Bags'', af_matchingAddon = Some example_retail_addon \<rparr>]
   \<and> af_matchingAddon ([example_addonFolder ''/a/Bags''] ! 0) \<noteq> Some example_retail_addon
   \<and> addon_channelType example_retail_addon = AddonChannelType_Stable
   \<and> file_channelType (getSearchResultFile example_scan_env
        (fm_matched_release example_retail_match) WowGameType_Retail) = AddonChannelType_Beta"
  using scan_channel_is_argument [OF example_scan_run, where i = 0 and a = example_retail_addon
      and release = "fm_matched_release example_retail_match" and gameType = WowGameType_Retail]
    example_scan_run
  by (simp add: example_defs)

text \<open>
  C2. Variant preference. Take any scan result of the pass and its fingerprint matches, that is
  the matches of the batch response whose release lists the result's fingerprint, in response
  order. If the match at position \<open>i\<close> declares a game version for the target variant and no
  match at another position does, then the first loop of \<^verbatim>\<open>scan\<close> completes and sets that
  scan result's \<open>exactMatch\<close> to the match at position \<open>i\<close>, wherever \<open>i\<close> lies in the list.
  (That there are at least two matches is not needed; the example that follows has two, the
  declaring one second.)
\<close>

theorem scan_prefers_target_variant:
  assumes "k < length scanResults"
      and "fms = fingerprintMatches exactMatches (scanResults ! k)"
      and "i < length fms"
      and "hasGameType (fm_matched_release (fms ! i)) gameType"
      and "\<forall>j<length fms. j \<noteq> i \<longrightarrow> \<not> hasGameType (fm_matched_release (fms ! j)) gameType"
  shows "\<exists>matched w'.
           scan_matchLoop gameType (GetAddonsByFingerprintResponse exactMatches) scanResults w
             = (Inr matched, w')
           \<and> length matched = length scanResults
           \<and> sr_exactMatch (matched ! k) = Some (fms ! i)"
proof -
  have f: "find (\<lambda>m. hasGameType (fm_matched_release m) gameType) fms = Some (fms ! i)"
    using assms(3,4,5) by (intro find_unique_index) auto
  obtain w' where "scan_matchLoop gameType (GetAddonsByFingerprintResponse exactMatches) scanResults w =
     (Inr (map (\<lambda>scanResult. scanResult\<lparr>sr_exactMatch :=
                  clientMatch gameType exactMatches scanResult\<rparr>) scanResults), w')"
    using scan_matchLoop_selects by blast
  then show ?thesis
    using assms(1) f assms(2) by simp
qed

theorem scan_prefers_target_variant_witness:
  "(0::nat) < length [example_scanResult ''/a/Bags'' ''f1'' ''Bags'']
   \<and> (1::nat) < length [example_classic_match, example_retail_match]
   \<and> hasGameType (fm_matched_release example_retail_match) WowGameType_Retail
   \<and> \<not> hasGameType (fm_matched_release example_classic_match) WowGameType_Retail
   \<and> (\<exists>matched w'.
        scan_matchLoop WowGameType_Retail
          (GetAddonsByFingerprintResponse [example_classic_match, example_retail_match])
          [example_scanResult ''/a/Bags'' ''f1'' ''Bags''] example_world = (Inr matched, w')
        \<and> length matched = length [example_scanResult ''/a/Bags'' ''f1'' ''Bags'']
        \<and> sr_exactMatch (matched ! 0) = Some example_retail_match)"
proof -
  have fms: "[example_classic_match, example_retail_match]
      = fingerprintMatches [example_classic_match, example_retail_match]
          ([example_scanResult ''/a/Bags'' ''f1'' ''Bags''] ! 0)"
    by (simp add: example_defs example_classic_match_def example_retail_match_def
          fingerprintMatches_def hasMatchingFingerprint_def)
  have yes: "hasGameType (fm_matched_release example_retail_match) WowGameType_Retail"
    by (simp add: example_defs example_retail_match_def hasGameType_def getMatchingVersion_def)
  have no: "\<not> hasGameType (fm_matched_release example_classic_match) WowGameType_Retail"
    by (simp add: example_defs example_classic_match_def hasGameType_def getMatchingVersion_def)
  have others: "\<forall>j<length [example_classic_match, example_retail_match]. j \<noteq> 1 \<longrightarrow>
      \<not> hasGameType (fm_matched_release ([example_classic_match, example_retail_match] ! j))
          WowGameType_Retail"
    using no by (simp add: less_Suc_eq)
  show ?thesis
    using scan_prefers_target_variant [of 0 "[example_scanResult ''/a/Bags'' ''f1'' ''Bags'']"
        "[example_classic_match, example_retail_match]"
        "[example_classic_match, example_retail_match]" 1 WowGameType_Retail example_world,
        OF _ fms _ _ others] yes no
    by (simp del: scan_matchLoop.simps)
qed

text \<open>
  C3. Fallback on no variant. The claim says that a folder whose only fingerprint matches do
  not declare the target variant gets the first match and still a resolved entity. Here the
  single match's release declares no game version at all. The first loop selects it with the
  fallback warning, but \<^verbatim>\<open>getAddon\<close> then reads \<^verbatim>\<open>matchingVersion.interface\<close> of
  \<^verbatim>\<open>undefined\<close> while building the text of its own warning: the \<open>TypeError\<close> is caught and
  logged, and the folder is left without an entity.
\<close>

theorem scan_empty_game_versions_no_entity:
  "scan (example_env [example_scanResult ''/a/Bags'' ''f1'' ''Bags'']
           (\<lambda>req. Inr (GetAddonsByFingerprintResponse
              [example_match 7 (example_release 70 False [] [example_folder ''Bags'' ''f1''])])))
        example_installation AddonChannelType_Stable [example_addonFolder ''/a/Bags''] example_world
   = (None, [\<lparr> af_path = ''/a/Bags'', af_matchingAddon = None \<rparr>],
      \<lparr> w_requests = [PostJson ''https://hub/addons/fingerprint'' (FingerprintsBody [''f1''])],
        w_cache = (\<lambda>k. None), w_clock = 1000, w_uuids = 0,
        w_console =
          [ConsoleTime ''WowUpScan'', ConsoleTimeEnd ''WowUpScan'',
           ConsoleLog ''[WowUpFingerprints]'' [''f1''],
           ConsoleWarn ''No matching client type found for Bags, using fallback'',
           ConsoleErrorScanResult
             ((example_scanResult ''/a/Bags'' ''f1'' ''Bags'')
                \<lparr> sr_exactMatch := Some (example_match 7
                     (example_release 70 False [] [example_folder ''Bags'' ''f1''])) \<rparr>),
           ConsoleError TypeError] \<rparr>)"
  by (simp add: example_defs scan_defs)

text \<open>
  C4, as the claim states it, fails: the fingerprint lookup does not go through the response
  cache. Two scan passes in a row over the same folder, hence with the same fingerprint set,
  hand two identical requests to the remote client, and the first pass leaves the cache
  without any entry.
\<close>

theorem scan_fingerprint_lookup_repeated:
  "w_requests (snd (snd (scan example_scan_env example_installation AddonChannelType_Stable
      [example_addonFolder ''/a/Bags'']
      (snd (snd (scan example_scan_env example_installation AddonChannelType_Stable
         [example_addonFolder ''/a/Bags''] example_world))))))
     = [PostJson ''https://hub/addons/fingerprint'' (FingerprintsBody [''f1'']),
        PostJson ''https://hub/addons/fingerprint'' (FingerprintsBody [''f1''])]
   \<and> w_cache (snd (snd (scan example_scan_env example_installation AddonChannelType_Stable
        [example_addonFolder ''/a/Bags''] example_world))) = (\<lambda>key. None)"
  by (simp add: example_scan_run) (simp add: example_defs scan_defs)

text \<open>
  C4, amended. The batched fingerprint lookup issued by \<^verbatim>\<open>scan\<close> is not cached: it hands
  one POST request for \<^verbatim>\<open>/addons/fingerprint\<close>, carrying the full fingerprint list, to the
  remote client on every call, its outcome does not depend on the cache, and it writes no
  cache entry. A scan pass whose folder scan succeeds issues exactly that one request and
  leaves the cache as it was.
\<close>

theorem scan_fingerprint_lookup_uncached:
  "w_cache (snd (getAddonsByFingerprints env fingerprints w)) = w_cache w
   \<and> w_requests (snd (getAddonsByFingerprints env fingerprints w))
       = w_requests w @ [PostJson (env_API_URL env @ ''/addons/fingerprint'')
                           (FingerprintsBody fingerprints)]
   \<and> fst (getAddonsByFingerprints env fingerprints (w\<lparr>w_cache := c\<rparr>))
       = fst (getAddonsByFingerprints env fingerprints w)
   \<and> (getScanResults env addonFolders = Inr scanResults \<longrightarrow>
        w_requests (snd (snd (scan env installation addonChannelType addonFolders w)))
          = w_requests w @ [PostJson (env_API_URL env @ ''/addons/fingerprint'')
                              (FingerprintsBody (map sr_fingerprint scanResults))]
        \<and> w_cache (snd (snd (scan env installation addonChannelType addonFolders w)))
            = w_cache w)"
  using scan_keeps [of env addonFolders scanResults installation addonChannelType w]
  by (simp add: getAddonsByFingerprints_def postJson_def Let_def)

theorem scan_fingerprint_lookup_uncached_witness:
  "getScanResults example_scan_env [example_addonFolder ''/a/Bags'']
     = Inr [example_scanResult ''/a/Bags'' ''f1'' ''Bags'']
   \<and> w_requests (snd (snd (scan example_scan_env example_installation AddonChannelType_Stable
        [example_addonFolder ''/a/Bags''] example_world)))
       = [PostJson ''https://hub/addons/fingerprint'' (FingerprintsBody [''f1''])]
   \<and> w_cache (snd (snd (scan example_scan_env example_installation AddonChannelType_Stable
        [example_addonFolder ''/a/Bags''] example_world))) = w_cache example_world"
  using scan_fingerprint_lookup_uncached [of example_scan_env "[]" example_world "w_cache example_world"
      "[example_addonFolder ''/a/Bags'']" "[example_scanResult ''/a/Bags'' ''f1'' ''Bags'']"
      example_installation AddonChannelType_Stable]
  by (simp add: getScanResults_def example_defs)

text \<open>
  C5. Partial batch. Whenever the remote batch call answers with a list of addons, whichever
  of the requested ids it covers, \<^verbatim>\<open>getAll\<close> does not fail: it returns one search result
  per returned addon, in response order, and one \<open>SourceRemovedAddonError\<close> for each entry
  of the requested ids that no returned addon carries (an id is carried when it equals the
  decimal text of a returned addon's id), in request order, and nothing else. When no id is
  requested twice, no error is reported twice: exactly one per absent id.
\<close>

theorem getAll_partial_batch:
  assumes "env_client env (w_requests w) (w_clock w)
             (PostJson (env_API_URL env @ ''/addons/batch/''
                  @ env_gameTypeText env (getWowGameType (inst_clientType installation)))
                (AddonIdsBody (map parseInt addonIds)))
           = Inr (GetAddonBatchResponse addons)"
  shows "\<exists>(result :: GetAllResult) w'.
           getAll env installation addonIds w = (Inr result, w')
           \<and> gar_searchResults result
               = map (\<lambda>addon. getSearchResult env w' addon
                        (getWowGameType (inst_clientType installation))) addons
           \<and> map res_externalId (gar_searchResults result)
               = map (\<lambda>addon. toString (rep_id addon)) addons
           \<and> gar_errors result
               = map (\<lambda>addonId. SourceRemovedAddonError addonId None)
                   (filter (\<lambda>addonId. addonId \<notin> set (map (\<lambda>addon. toString (rep_id addon)) addons))
                      addonIds)
           \<and> (distinct addonIds \<longrightarrow> distinct (gar_errors result))"
proof -
  have absent: "(find (\<lambda>sr. res_externalId sr = addonId)
                   (map (\<lambda>addon. getSearchResult env wx addon gameType) addons) = None)
                = (addonId \<notin> set (map (\<lambda>addon. toString (rep_id addon)) addons))"
    for addonId wx gameType
    by (auto simp: find_None_iff getSearchResult_externalId)
  have once: "distinct (map (\<lambda>addonId. SourceRemovedAddonError addonId None) (filter P ids))"
    if "distinct ids" for P and ids :: "string list"
    using that by (simp add: distinct_map inj_on_def)
  show ?thesis
    using assms once [of addonIds]
    by (simp add: getAll_def postJson_def responseAddons_def Let_def absent
          getSearchResult_externalId comp_def)
qed

theorem getAll_partial_batch_witness:
  "env_client example_batch_env (w_requests example_world) (w_clock example_world)
      (PostJson ''https://hub/addons/batch/retail'' (AddonIdsBody [Some 1, Some 2, Some 3]))
     = Inr (GetAddonBatchResponse [example_representation 1, example_representation 3])
   \<and> distinct [''1'', ''2'', ''3'']
   \<and> (\<exists>(result :: GetAllResult) w'.
        getAll example_batch_env example_installation [''1'', ''2'', ''3''] example_world
          = (Inr result, w')
        \<and> map res_externalId (gar_searchResults result) = [''1'', ''3'']
        \<and> gar_errors result = [SourceRemovedAddonError ''2'' None])"
proof -
  have request: "PostJson (env_API_URL example_batch_env @ ''/addons/batch/''
          @ env_gameTypeText example_batch_env
              (getWowGameType (inst_clientType example_installation)))
        (AddonIdsBody (map parseInt [''1'', ''2'', ''3'']))
      = PostJson ''https://hub/addons/batch/retail'' (AddonIdsBody [Some 1, Some 2, Some 3])"
    by (simp add: example_batch_env_def example_env_def example_installation_def parseInt_def
          isWhiteSpace_def isDigit_def digitsValue_def)
  have answered: "env_client example_batch_env (w_requests example_world) (w_clock example_world)
      (PostJson ''https://hub/addons/batch/retail'' (AddonIdsBody [Some 1, Some 2, Some 3]))
     = Inr (GetAddonBatchResponse [example_representation 1, example_representation 3])"
    by (simp add: example_batch_env_def example_env_def)
  have ids: "map (\<lambda>addon. toString (rep_id addon))
        [example_representation 1, example_representation 3] = [''1'', ''3'']"
    by (simp add: example_representation_def toString_def digit_char_def)
  from getAll_partial_batch [of example_batch_env example_world example_installation
      "[''1'', ''2'', ''3'']" "[example_representation 1, example_representation 3]"]
    answered request
  obtain result :: GetAllResult and w' where
    run: "getAll example_batch_env example_installation [''1'', ''2'', ''3''] example_world
            = (Inr result, w')"
    and found: "map res_externalId (gar_searchResults result)
            = map (\<lambda>addon. toString (rep_id addon))
                [example_representation 1, example_representation 3]"
    and errs: "gar_errors result
            = map (\<lambda>addonId. SourceRemovedAddonError addonId None)
                (filter (\<lambda>addonId. addonId \<notin> set (map (\<lambda>addon. toString (rep_id addon))
                     [example_representation 1, example_representation 3]))
                   [''1'', ''2'', ''3''])"
    by auto
  from found ids have "map res_externalId (gar_searchResults result) = [''1'', ''3'']"
    by simp
  moreover from errs have "gar_errors result = [SourceRemovedAddonError ''2'' None]"
    unfolding ids by simp
  ultimately show ?thesis
    using answered run by auto
qed

text \<open>
  C6, as the claim states it, fails: the installed-folder list is not made of the local folder
  names of the scanned folders. One folder, named Bags, is scanned; the matched release
  declares the folders Bags and Bags_Config; the entity lists both, although no scanned
  folder is named Bags_Config.
\<close>

theorem scan_installed_folders_not_local:
  "getScanResults example_scan_env [example_addonFolder ''/a/Bags'']
     = Inr [example_scanResult ''/a/Bags'' ''f1'' ''Bags'']
   \<and> map sr_folderName [example_scanResult ''/a/Bags'' ''f1'' ''Bags''] = [''Bags'']
   \<and> fst (snd (scan example_scan_env example_installation AddonChannelType_Stable
       [example_addonFolder ''/a/Bags''] example_world))
     = [\<lparr> af_path = ''/a/Bags'', af_matchingAddon = Some example_retail_addon \<rparr>]
   \<and> addon_installedFolderList example_retail_addon = [''Bags'', ''Bags_Config'']
   \<and> addon_installedFolders example_retail_addon = ''Bags, Bags_Config''
   \<and> set (addon_installedFolderList example_retail_addon) \<noteq> set [''Bags'']"
  by (simp add: example_scan_run)
     (simp add: example_retail_addon_def example_defs getScanResults_def)

text \<open>
  C6, amended. For every addon entity that a scan pass attaches to a folder, the
  installed-folder list is the list of folder names that the matched release declares
  (\<^verbatim>\<open>matched_release.addonFolders[].folder_name\<close>), in the release's order, where the
  match is the one the first loop selected for the scan result of the folder's path; the
  display string is that list joined with a comma and a space.
\<close>

theorem scan_installed_folders_from_release:
  assumes "scan env installation addonChannelType addonFolders w = (r, addonFolders', w')"
      and "i < length addonFolders'"
      and "af_matchingAddon (addonFolders' ! i) = Some a"
      and "af_matchingAddon (addonFolders ! i) \<noteq> Some a"
  shows "\<exists>scanResults exactMatches scanResult exactMatch.
           getScanResults env addonFolders = Inr scanResults
           \<and> env_client env (w_requests w) (w_clock w)
                (PostJson (env_API_URL env @ ''/addons/fingerprint'')
                   (FingerprintsBody (map sr_fingerprint scanResults)))
               = Inr (GetAddonsByFingerprintResponse exactMatches)
           \<and> find (\<lambda>sr. sr_path sr = af_path (addonFolders ! i)) scanResults = Some scanResult
           \<and> clientMatch (getWowGameType (inst_clientType installation)) exactMatches scanResult
               = Some exactMatch
           \<and> addon_installedFolderList a
               = map rf_folder_name (rel_addonFolders (fm_matched_release exactMatch))
           \<and> addon_installedFolders a = join '', '' (addon_installedFolderList a)"
proof -
  from scan_entity_origin [OF assms] obtain scanResults exactMatches scanResult exactMatch wa wb
    where o: "getScanResults env addonFolders = Inr scanResults"
      "env_client env (w_requests w) (w_clock w)
                (PostJson (env_API_URL env @ ''/addons/fingerprint'')
                   (FingerprintsBody (map sr_fingerprint scanResults)))
               = Inr (GetAddonsByFingerprintResponse exactMatches)"
      "find (\<lambda>sr. sr_path sr = af_path (addonFolders ! i)) scanResults = Some scanResult"
      "clientMatch (getWowGameType (inst_clientType installation)) exactMatches scanResult
               = Some exactMatch"
    and g: "getAddon env installation addonChannelType
              (scanResult\<lparr>sr_exactMatch := Some exactMatch\<rparr>) wa = (Inr a, wb)"
    by blast
  from getAddon_Inr [OF g]
  have "addon_installedFolderList a
               = map rf_folder_name (rel_addonFolders (fm_matched_release exactMatch))"
    and "addon_installedFolders a = join '', '' (addon_installedFolderList a)"
    by auto
  with o show ?thesis by blast
qed

theorem scan_installed_folders_from_release_witness:
  "fst (snd (scan example_scan_env example_installation AddonChannelType_Stable
       [example_addonFolder ''/a/Bags''] example_world))
     = [\<lparr> af_path = ''/a/Bags'', af_matchingAddon = Some example_retail_addon \<rparr>]
   \<and> af_matchingAddon ([example_addonFolder ''/a/Bags''] ! 0) \<noteq> Some example_retail_addon
   \<and> clientMatch WowGameType_Retail [example_classic_match, example_retail_match]
        (example_scanResult ''/a/Bags'' ''f1'' ''Bags'') = Some example_retail_match
   \<and> addon_installedFolderList example_retail_addon
       = map rf_folder_name (rel_addonFolders (fm_matched_release example_retail_match))
   \<and> addon_installedFolders example_retail_addon
       = join '', '' (addon_installedFolderList example_retail_addon)"
proof -
  have sel: "clientMatch WowGameType_Retail [example_classic_match, example_retail_match]
        (example_scanResult ''/a/Bags'' ''f1'' ''Bags'') = Some example_retail_match"
    by (simp add: example_defs fingerprintMatches_def hasMatchingFingerprint_def hasGameType_def
          getMatchingVersion_def)
  have new: "af_matchingAddon ([example_addonFolder ''/a/Bags''] ! 0) \<noteq> Some example_retail_addon"
    by (simp add: example_addonFolder_def)
  from scan_installed_folders_from_release [OF example_scan_run, where i = 0
      and a = example_retail_addon] new
  obtain scanResults exactMatches scanResult exactMatch where
    o: "getScanResults example_scan_env [example_addonFolder ''/a/Bags''] = Inr scanResults"
      "env_client example_scan_env (w_requests example_world) (w_clock example_world)
                (PostJson (env_API_URL example_scan_env @ ''/addons/fingerprint'')
                   (FingerprintsBody (map sr_fingerprint scanResults)))
               = Inr (GetAddonsByFingerprintResponse exactMatches)"
      "find (\<lambda>sr. sr_path sr = af_path ([example_addonFolder ''/a/Bags''] ! 0)) scanResults
               = Some scanResult"
      "clientMatch (getWowGameType (inst_clientType example_installation)) exactMatches scanResult
               = Some exactMatch"
      "addon_installedFolderList example_retail_addon
               = map rf_folder_name (rel_addonFolders (fm_matched_release exactMatch))"
      "addon_installedFolders example_retail_addon
               = join '', '' (addon_installedFolderList example_retail_addon)"
    by auto
  from o(1) have srs: "scanResults = [example_scanResult ''/a/Bags'' ''f1'' ''Bags'']"
    by (simp add: getScanResults_def example_scan_env_def example_env_def)
  from o(2) have ms: "exactMatches = [example_classic_match, example_retail_match]"
    by (simp add: example_scan_env_def example_env_def)
  from o(3) srs have sr: "scanResult = example_scanResult ''/a/Bags'' ''f1'' ''Bags''"
    by (simp add: example_scanResult_def example_addonFolder_def)
  from o(4) sel have "exactMatch = example_retail_match"
    unfolding ms sr by (simp add: example_installation_def)
  with o(5,6) sel new example_scan_run show ?thesis by simp
qed

text \<open>
  C7. Per-folder isolation. Let the second loop of \<^verbatim>\<open>scan\<close> have passed the folders before
  a matched folder without aborting, and let \<^verbatim>\<open>getAddon\<close> throw for that folder. Then the
  exception is caught and logged (the scan result and the error are appended to the console),
  the folder is returned as it was, without an entity, and the folders after it are processed
  exactly as the loop processes them on their own from that world: their outcome, their
  entities and the final world are those of the remaining folders.
\<close>

theorem scan_isolates_folder_exception:
  assumes "scan_addonLoop env installation addonChannelType scanResults before w
             = (None, before', w1)"
      and "find (\<lambda>sr. sr_path sr = af_path addonFolder) scanResults = Some scanResult"
      and "sr_exactMatch scanResult \<noteq> None"
      and "getAddon env installation addonChannelType scanResult w1 = (Inl err, w2)"
      and "scan_addonLoop env installation addonChannelType scanResults rest
             (w1\<lparr>w_console := w_console w1 @ [ConsoleErrorScanResult scanResult, ConsoleError err]\<rparr>)
             = (r, rest', w')"
  shows "scan_addonLoop env installation addonChannelType scanResults
           (before @ addonFolder # rest) w
         = (r, before' @ addonFolder # rest', w')"
proof -
  from getAddon_Inl [OF assms(4)] have same: "w2 = w1" by simp
  from assms(3) obtain m where m: "sr_exactMatch scanResult = Some m" by auto
  have "scan_addonLoop env installation addonChannelType scanResults (addonFolder # rest) w1
          = (r, addonFolder # rest', w')"
    using assms(2,4,5) same m by (simp add: console_def)
  with assms(1) show ?thesis
    by (simp add: scan_addonLoop_append)
qed

theorem scan_isolates_folder_exception_witness:
  "scan_addonLoop example_scan_env example_installation AddonChannelType_Stable
     [(example_scanResult ''/a/Broken'' ''f9'' ''Broken'')\<lparr>sr_exactMatch := Some example_broken_match\<rparr>,
      (example_scanResult ''/a/Bags'' ''f1'' ''Bags'')\<lparr>sr_exactMatch := Some example_retail_match\<rparr>]
     [] example_world = (None, [], example_world)
   \<and> getAddon example_scan_env example_installation AddonChannelType_Stable
        ((example_scanResult ''/a/Broken'' ''f9'' ''Broken'')\<lparr>sr_exactMatch := Some example_broken_match\<rparr>)
        example_world = (Inl TypeError, example_world)
   \<and> scan_addonLoop example_scan_env example_installation AddonChannelType_Stable
     [(example_scanResult ''/a/Broken'' ''f9'' ''Broken'')\<lparr>sr_exactMatch := Some example_broken_match\<rparr>,
      (example_scanResult ''/a/Bags'' ''f1'' ''Bags'')\<lparr>sr_exactMatch := Some example_retail_match\<rparr>]
     ([] @ example_addonFolder ''/a/Broken'' # [example_addonFolder ''/a/Bags'']) example_world
     = (None,
        [] @ example_addonFolder ''/a/Broken''
          # [\<lparr> af_path = ''/a/Bags'', af_matchingAddon = Some example_retail_addon \<rparr>],
        example_world\<lparr> w_uuids := 1,
          w_console := [ConsoleErrorScanResult
              ((example_scanResult ''/a/Broken'' ''f9'' ''Broken'')\<lparr>sr_exactMatch := Some example_broken_match\<rparr>),
            ConsoleError TypeError] \<rparr>)"
proof -
  let ?srs = "[(example_scanResult ''/a/Broken'' ''f9'' ''Broken'')\<lparr>sr_exactMatch := Some example_broken_match\<rparr>,
      (example_scanResult ''/a/Bags'' ''f1'' ''Bags'')\<lparr>sr_exactMatch := Some example_retail_match\<rparr>]"
  have h1: "scan_addonLoop example_scan_env example_installation AddonChannelType_Stable ?srs
      [] example_world = (None, [], example_world)"
    by simp
  have h2: "find (\<lambda>sr. sr_path sr = af_path (example_addonFolder ''/a/Broken'')) ?srs
      = Some ((example_scanResult ''/a/Broken'' ''f9'' ''Broken'')\<lparr>sr_exactMatch := Some example_broken_match\<rparr>)"
    by (simp add: example_defs)
  have h3: "sr_exactMatch ((example_scanResult ''/a/Broken'' ''f9'' ''Broken'')\<lparr>sr_exactMatch := Some example_broken_match\<rparr>) \<noteq> None"
    by simp
  have h4: "getAddon example_scan_env example_installation AddonChannelType_Stable
        ((example_scanResult ''/a/Broken'' ''f9'' ''Broken'')\<lparr>sr_exactMatch := Some example_broken_match\<rparr>)
        example_world = (Inl TypeError, example_world)"
    by (simp add: example_defs example_broken_match_def getAddon_def getMatchingVersion_def Let_def)
  have h5: "scan_addonLoop example_scan_env example_installation AddonChannelType_Stable ?srs
      [example_addonFolder ''/a/Bags'']
      (example_world\<lparr>w_console := w_console example_world @
         [ConsoleErrorScanResult ((example_scanResult ''/a/Broken'' ''f9'' ''Broken'')\<lparr>sr_exactMatch := Some example_broken_match\<rparr>),
          ConsoleError TypeError]\<rparr>)
      = (None, [\<lparr> af_path = ''/a/Bags'', af_matchingAddon = Some example_retail_addon \<rparr>],
         example_world\<lparr> w_uuids := 1,
          w_console := [ConsoleErrorScanResult
              ((example_scanResult ''/a/Broken'' ''f9'' ''Broken'')\<lparr>sr_exactMatch := Some example_broken_match\<rparr>),
            ConsoleError TypeError] \<rparr>)"
    by (simp add: example_defs example_retail_addon_def getAddon_def getMatchingVersion_def
          Let_def toString_def digit_char_def)
  show ?thesis
    using scan_isolates_folder_exception [OF h1 h2 h3 h4 h5] h1 h4 by blast
qed

text \<open>
  C8. \<^verbatim>\<open>getChangelog\<close> always resolves to a string (its result carries no error). It is the
  empty string when the release lookup is rejected, when the fetched release has no body, and
  when the response has no release; in particular when no cache entry exists for the release
  URL and the remote client rejects the request, in which case the failure is logged.
\<close>

theorem getChangelog_empty:
  "(fst (getReleaseById env externalId externalReleaseId
           (console (ConsoleDebug ''getChangelog'') w)) = Inl e
      \<longrightarrow> fst (getChangelog env installation externalId externalReleaseId w) = [])
   \<and> (fst (getReleaseById env externalId externalReleaseId
           (console (ConsoleDebug ''getChangelog'') w))
         = Inr (WowUpGetAddonReleaseResponse (Some release))
       \<and> rel_body release = None
      \<longrightarrow> fst (getChangelog env installation externalId externalReleaseId w) = [])
   \<and> (fst (getReleaseById env externalId externalReleaseId
           (console (ConsoleDebug ''getChangelog'') w))
         = Inr (WowUpGetAddonReleaseResponse None)
      \<longrightarrow> fst (getChangelog env installation externalId externalReleaseId w) = [])
   \<and> (w_cache w (env_API_URL env @ ''/addons/'' @ externalId @ ''/releases/'' @ externalReleaseId)
         = None
       \<and> env_client env (w_requests w) (w_clock w)
           (GetJson (env_API_URL env @ ''/addons/'' @ externalId @ ''/releases/'' @ externalReleaseId))
         = Inl e
      \<longrightarrow> getChangelog env installation externalId externalReleaseId w
          = ([], w\<lparr> w_requests := w_requests w
                     @ [GetJson (env_API_URL env @ ''/addons/'' @ externalId @ ''/releases/''
                          @ externalReleaseId)],
                   w_console := w_console w
                     @ [ConsoleDebug ''getChangelog'',
                        ConsoleErrorMsg ''Failed to get changelog'' e] \<rparr>))"
  by (auto simp: getChangelog_def getReleaseById_def transaction_def getJson_def console_def Let_def
           split: prod.splits sum.splits option.splits if_splits)

theorem getChangelog_empty_witness:
  "fst (getReleaseById (example_env [] (\<lambda>req. Inl Timeout)) ''8'' ''80''
          (console (ConsoleDebug ''getChangelog'') example_world)) = Inl Timeout
   \<and> fst (getChangelog (example_env [] (\<lambda>req. Inl Timeout)) example_installation ''8'' ''80''
          example_world) = []
   \<and> fst (getReleaseById
          (example_env [] (\<lambda>req. Inr (WowUpGetAddonReleaseResponse
             (Some (fm_matched_release example_retail_match))))) ''8'' ''80''
          (console (ConsoleDebug ''getChangelog'') example_world))
       = Inr (WowUpGetAddonReleaseResponse (Some (fm_matched_release example_retail_match)))
   \<and> rel_body (fm_matched_release example_retail_match) = None
   \<and> fst (getChangelog
          (example_env [] (\<lambda>req. Inr (WowUpGetAddonReleaseResponse
             (Some (fm_matched_release example_retail_match))))) example_installation ''8'' ''80''
          example_world) = []"
proof -
  have fails: "fst (getReleaseById (example_env [] (\<lambda>req. Inl Timeout)) ''8'' ''80''
          (console (ConsoleDebug ''getChangelog'') example_world)) = Inl Timeout"
    by (simp add: getReleaseById_def transaction_def getJson_def console_def Let_def example_defs)
  have fetched: "fst (getReleaseById
          (example_env [] (\<lambda>req. Inr (WowUpGetAddonReleaseResponse
             (Some (fm_matched_release example_retail_match))))) ''8'' ''80''
          (console (ConsoleDebug ''getChangelog'') example_world))
       = Inr (WowUpGetAddonReleaseResponse (Some (fm_matched_release example_retail_match)))"
    by (simp add: getReleaseById_def transaction_def getJson_def console_def Let_def
          example_env_def example_world_def)
  have nobody: "rel_body (fm_matched_release example_retail_match) = None"
    by (simp add: example_defs)
  show ?thesis
    using fails fetched nobody
      getChangelog_empty [of "example_env [] (\<lambda>req. Inl Timeout)" "''8''" "''80''" example_world
        Timeout example_installation]
      getChangelog_empty [of "example_env [] (\<lambda>req. Inr (WowUpGetAddonReleaseResponse
             (Some (fm_matched_release example_retail_match))))" "''8''" "''80''" example_world
        Timeout example_installation "fm_matched_release example_retail_match"]
    by blast
qed

text \<open>
  C9. The mapping from client kind to catalog variant is a total function: the classic-era
  kind maps to Classic; classic, classic-PTR and classic-beta map to BurningCrusade; retail,
  retail-PTR, beta and every other kind map to Retail. The result is always one of the three
  variants, so no input is rejected.
\<close>

theorem getWowGameType_total:
  "getWowGameType WowClientType_ClassicEra = WowGameType_Classic
   \<and> getWowGameType WowClientType_Classic = WowGameType_BurningCrusade
   \<and> getWowGameType WowClientType_ClassicPtr = WowGameType_BurningCrusade
   \<and> getWowGameType WowClientType_ClassicBeta = WowGameType_BurningCrusade
   \<and> getWowGameType WowClientType_Retail = WowGameType_Retail
   \<and> getWowGameType WowClientType_RetailPtr = WowGameType_Retail
   \<and> getWowGameType WowClientType_Beta = WowGameType_Retail
   \<and> getWowGameType (WowClientType_Other n) = WowGameType_Retail
   \<and> (c \<noteq> WowClientType_ClassicEra \<and> c \<noteq> WowClientType_Classic
        \<and> c \<noteq> WowClientType_ClassicPtr \<and> c \<noteq> WowClientType_ClassicBeta
      \<longrightarrow> getWowGameType c = WowGameType_Retail)"
  by (cases c) simp_all

theorem getWowGameType_total_witness:
  "WowClientType_Other 42 \<noteq> WowClientType_ClassicEra
   \<and> WowClientType_Other 42 \<noteq> WowClientType_Classic
   \<and> WowClientType_Other 42 \<noteq> WowClientType_ClassicPtr
   \<and> WowClientType_Other 42 \<noteq> WowClientType_ClassicBeta
   \<and> getWowGameType (WowClientType_Other 42) = WowGameType_Retail"
  using getWowGameType_total [of 42 "WowClientType_Other 42"] by simp

text \<open>
  C10. Every addon entity that a scan pass attaches to a folder has its installed version
  equal to its latest version and its installed external release id equal to its latest
  external release id: \<^verbatim>\<open>scan\<close> never builds an entity with a pending update.
\<close>

theorem scan_installed_is_latest:
  assumes "scan env installation addonChannelType addonFolders w = (r, addonFolders', w')"
      and "i < length addonFolders'"
      and "af_matchingAddon (addonFolders' ! i) = Some a"
      and "af_matchingAddon (addonFolders ! i) \<noteq> Some a"
  shows "addon_installedVersion a = addon_latestVersion a
         \<and> addon_installedExternalReleaseId a = addon_externalLatestReleaseId a"
proof -
  from scan_new_entity [OF assms] obtain sr wa wb where
    "getAddon env installation addonChannelType sr wa = (Inr a, wb)" by blast
  from getAddon_Inr [OF this] show ?thesis by blast
qed

theorem scan_installed_is_latest_witness:
  "fst (snd (scan example_scan_env example_installation AddonChannelType_Stable
       [example_addonFolder ''/a/Bags''] example_world))
     = [\<lparr> af_path = ''/a/Bags'', af_matchingAddon = Some example_retail_addon \<rparr>]
   \<and> af_matchingAddon ([example_addonFolder ''/a/Bags''] ! 0) \<noteq> Some example_retail_addon
   \<and> addon_installedVersion example_retail_addon = addon_latestVersion example_retail_addon
   \<and> addon_installedExternalReleaseId example_retail_addon
       = addon_externalLatestReleaseId example_retail_addon"
  using scan_installed_is_latest [OF example_scan_run, where i = 0 and a = example_retail_addon]
    example_scan_run
  by (simp add: example_defs)

end
